theory Spec2Isabelle
  imports Main "HOL-Library.Sublist" "HOL-Library.List_Lexorder" "HOL-Library.Char_ord"
begin

section \<open>The lock and pull-status store of \<^verbatim>\<open>server/events/db/boltdb.go\<close>\<close>

text \<open>
  The Go file keeps two namespaces of one BoltDB file: project locks under the key
  \<^verbatim>\<open>repo/path/workspace\<close> and pull statuses under the key
  \<^verbatim>\<open>hostname::repo::number\<close>, both as JSON values. The functions of the file that
  read and write the two buckets are embedded here one by one (\<^verbatim>\<open>New\<close>, \<^verbatim>\<open>NewWithDB\<close>
  and \<^verbatim>\<open>List\<close> are left out), with the database handle passed in and returned. A Go
  result \<^verbatim>\<open>(value, error)\<close> is a sum, \<open>Inl\<close> the error; \<^verbatim>\<open>UnlockByPull\<close> alone returns
  both, since its list of locks is meant to be read next to the error.

  Three collaborators of the file are libraries and are modelled by what they do to the
  values the file hands them:
  \<^item> a BoltDB bucket is a list of key/value pairs kept in ascending byte order of the keys.
    \<^verbatim>\<open>Put\<close> refuses an empty key, a key of more than 32768 bytes and a value of more than
    2147483646 bytes; \<^verbatim>\<open>Get\<close>, \<^verbatim>\<open>Delete\<close> and the cursor do not fail;
  \<^item> a stored byte string is represented by what \<^verbatim>\<open>json.Unmarshal\<close> makes of it at the
    record type of its bucket: a decoded record, or a failure. What \<^verbatim>\<open>json.Marshal\<close>
    writes for a record decodes to the record with every invalid UTF-8 byte of its
    strings replaced by U+FFFD and with its timestamp as RFC 3339 carries it (zone offset
    in whole minutes); it fails on a timestamp outside the years 0 to 9999 or with a zone
    of 24 hours or more;
  \<^item> \<^verbatim>\<open>db.Update\<close> runs its function in a transaction that is committed when the function
    returns no error and rolled back otherwise; \<^verbatim>\<open>db.View\<close> runs a read-only one. The
    transactions themselves (file, disk) are taken not to fail.
\<close>

subsection \<open>Strings and errors\<close>

text \<open>Go strings and byte slices are byte sequences: \<^typ>\<open>string\<close>, ordered bytewise.\<close>

text \<open>\<^verbatim>\<open>strings.Contains(s, substr)\<close>: \<open>substr\<close> starts at some position of \<open>s\<close>.\<close>

fun strings_Contains :: "string \<Rightarrow> string \<Rightarrow> bool" where
  "strings_Contains [] substr = (substr = [])"
| "strings_Contains (c # s) substr = (prefix substr (c # s) \<or> strings_Contains s substr)"

definition bytes_HasPrefix :: "string \<Rightarrow> string \<Rightarrow> bool" where
  "bytes_HasPrefix s pre = prefix pre s"

text \<open>
  Errors are values. \<open>Errorf\<close> and \<open>Wrapf\<close> keep the format string and its arguments
  apart instead of rendering the message; \<open>UnmarshalError\<close> and \<open>MarshalError\<close> are
  the errors of \<^verbatim>\<open>json.Unmarshal\<close> and \<^verbatim>\<open>json.Marshal\<close>; the last three are the errors
  of \<^verbatim>\<open>Bucket.Put\<close>.
\<close>

datatype error =
    Errorf string "string list"
  | Wrapf error string "string list"
  | UnmarshalError
  | MarshalError
  | ErrKeyRequired
  | ErrKeyTooLarge
  | ErrValueTooLarge

definition Wrap :: "error \<Rightarrow> string \<Rightarrow> error" where
  "Wrap err msg = Wrapf err msg []"

text \<open>
  \<^verbatim>\<open>errors.Wrap(nil, msg)\<close> is \<^verbatim>\<open>nil\<close>: where the file wraps an error that may be
  \<^verbatim>\<open>nil\<close>, the model wraps in the error branch only.
\<close>

subsection \<open>The records of package \<^verbatim>\<open>models\<close>\<close>

text \<open>
  Modelled from the spec: the declarations of package \<^verbatim>\<open>models\<close> (Project, Repo,
  PullRequest, ProjectLock, ProjectStatus, ProjectResult, PullStatus) are not part of the
  file. The records below carry the fields the file reads and the spec's data model
  names; \<open>Author\<close> and \<open>Branch\<close> stand for the fields of a pull request that the
  file never looks at. Go's \<^verbatim>\<open>int\<close> is \<^typ>\<open>int\<close>: the file compares and prints
  numbers, it does no arithmetic on them.
\<close>

record Project =
  RepoFullName :: string
  Path :: string

record VCSHost =
  Hostname :: string

record Repo =
  FullName :: string
  VCSHost :: VCSHost

record PullRequest =
  Num :: int
  HeadCommit :: string
  Author :: string
  Branch :: string
  BaseRepo :: Repo

text \<open>
  Modelled from the spec: \<^verbatim>\<open>time.Time\<close> is an instant (nanoseconds since the Unix
  epoch) shown in a location; a fixed zone has its offset in seconds east of UTC.
  \<^verbatim>\<open>Time.Local()\<close> keeps the instant and sets the location to \<open>Local\<close>.
\<close>

datatype Location = UTC | Local | FixedZone int

record Time =
  instant :: int
  loc :: Location

definition Time_Local :: "Time \<Rightarrow> Time" where
  "Time_Local t = t\<lparr>loc := Local\<rparr>"

definition unixSec :: "Time \<Rightarrow> int" where
  "unixSec t = instant t div 1000000000"

record ProjectLock =
  Project :: Project
  Pull :: PullRequest
  Workspace :: string
  Time :: Time

text \<open>
  Modelled from the spec: \<^verbatim>\<open>ProjectPlanStatus\<close> is an integer enumeration, and
  \<^verbatim>\<open>ProjectResult.PlanStatus()\<close> derives one from a result by a rule that lives in
  package \<^verbatim>\<open>models\<close>. A result carries the status that method returns.
\<close>

type_synonym ProjectPlanStatus = int

record ProjectStatus =
  Workspace :: string
  RepoRelDir :: string
  ProjectName :: string
  Status :: ProjectPlanStatus

record ProjectResult =
  Workspace :: string
  RepoRelDir :: string
  ProjectName :: string
  PlanStatus :: ProjectPlanStatus

record PullStatus =
  Projects :: "ProjectStatus list"
  Pull :: PullRequest

subsection \<open>What the model leaves open\<close>

text \<open>
  Two things the file does not determine are parameters of the model: the zone of the
  machine (its offset from UTC, in seconds, at a Unix time), which decides when the
  JSON decoder reads a timestamp as \<open>Local\<close>, and the number of bytes of the JSON text
  that \<^verbatim>\<open>json.Marshal\<close> writes for a lock and for a pull status, which decides whether
  BoltDB takes the value.
\<close>

record Env =
  localOffset :: "int \<Rightarrow> int"
  lockLen :: "ProjectLock \<Rightarrow> nat"
  statusLen :: "PullStatus \<Rightarrow> nat"

subsection \<open>Strings through JSON\<close>

text \<open>
  \<^verbatim>\<open>utf8.DecodeRuneInString\<close>, as far as the encoder uses it: the number of bytes of the
  UTF-8 sequence that a byte string begins with, and 0 when it begins with none. The
  second byte of a three- or four-byte sequence has a narrower range after \<open>E0\<close>,
  \<open>ED\<close>, \<open>F0\<close> and \<open>F4\<close> (no overlong forms, no surrogates, nothing above U+10FFFF).
\<close>

definition cont :: "nat \<Rightarrow> bool" where
  "cont b \<longleftrightarrow> 0x80 \<le> b \<and> b \<le> 0xBF"

definition second3 :: "nat \<Rightarrow> nat \<Rightarrow> bool" where
  "second3 b b1 \<longleftrightarrow>
     (if b = 0xE0 then 0xA0 \<le> b1 \<and> b1 \<le> 0xBF
      else if b = 0xED then 0x80 \<le> b1 \<and> b1 \<le> 0x9F
      else cont b1)"

definition second4 :: "nat \<Rightarrow> nat \<Rightarrow> bool" where
  "second4 b b1 \<longleftrightarrow>
     (if b = 0xF0 then 0x90 \<le> b1 \<and> b1 \<le> 0xBF
      else if b = 0xF4 then 0x80 \<le> b1 \<and> b1 \<le> 0x8F
      else cont b1)"

fun runeLen :: "nat list \<Rightarrow> nat" where
  "runeLen [] = 0"
| "runeLen (b # r) =
     (if b < 0x80 then 1
      else if 0xC2 \<le> b \<and> b \<le> 0xDF then
        (case r of b1 # _ \<Rightarrow> if cont b1 then 2 else 0 | _ \<Rightarrow> 0)
      else if 0xE0 \<le> b \<and> b \<le> 0xEF then
        (case r of b1 # b2 # _ \<Rightarrow> if second3 b b1 \<and> cont b2 then 3 else 0 | _ \<Rightarrow> 0)
      else if 0xF0 \<le> b \<and> b \<le> 0xF4 then
        (case r of b1 # b2 # b3 # _ \<Rightarrow> if second4 b b1 \<and> cont b2 \<and> cont b3 then 4 else 0
         | _ \<Rightarrow> 0)
      else 0)"

text \<open>U+FFFD in UTF-8.\<close>

definition RuneError :: string where
  "RuneError = [CHR 0xEF, CHR 0xBF, CHR 0xBD]"

text \<open>
  A string as it comes back from its JSON text: the encoder copies every UTF-8 sequence
  (escapes are undone by the decoder) and writes U+FFFD for every byte that begins none.
\<close>

function json_string :: "string \<Rightarrow> string" where
  "json_string [] = []"
| "json_string (c # s) =
     (let n = runeLen (map of_char (c # s)) in
      if n = 0 then RuneError @ json_string s
      else take n (c # s) @ json_string (drop n (c # s)))"
  by pat_completeness auto
termination
  by (relation "measure length") auto

declare json_string.simps(2) [simp del]

definition json_Project :: "Project \<Rightarrow> Project" where
  "json_Project p =
     \<lparr>RepoFullName = json_string (RepoFullName p), Path = json_string (Path p)\<rparr>"

definition json_Repo :: "Repo \<Rightarrow> Repo" where
  "json_Repo r =
     \<lparr>FullName = json_string (FullName r),
      VCSHost = \<lparr>Hostname = json_string (Hostname (VCSHost r))\<rparr>\<rparr>"

definition json_PullRequest :: "PullRequest \<Rightarrow> PullRequest" where
  "json_PullRequest p =
     \<lparr>Num = Num p, HeadCommit = json_string (HeadCommit p), Author = json_string (Author p),
      Branch = json_string (Branch p), BaseRepo = json_Repo (BaseRepo p)\<rparr>"

definition json_ProjectStatus :: "ProjectStatus \<Rightarrow> ProjectStatus" where
  "json_ProjectStatus p =
     \<lparr>ProjectStatus.Workspace = json_string (ProjectStatus.Workspace p),
      ProjectStatus.RepoRelDir = json_string (ProjectStatus.RepoRelDir p),
      ProjectStatus.ProjectName = json_string (ProjectStatus.ProjectName p),
      Status = Status p\<rparr>"

definition json_PullStatus :: "PullStatus \<Rightarrow> PullStatus" where
  "json_PullStatus s =
     \<lparr>Projects = map json_ProjectStatus (Projects s),
      PullStatus.Pull = json_PullRequest (PullStatus.Pull s)\<rparr>"

subsection \<open>Timestamps through JSON\<close>

text \<open>
  \<^verbatim>\<open>Time.MarshalJSON\<close> writes the wall clock of the timestamp in its location, to the
  nanosecond, and then \<^verbatim>\<open>Z\<close> when the offset of the location is 0 and otherwise the
  offset as hours and minutes, the seconds cut off (Go's division rounds towards zero).
  It fails when the year of the wall clock is not one of 0 to 9999 or the hours written
  are 24 or more. The two bounds are the Unix times of the first second of the year 0
  and of the year 10000.
\<close>

definition zoneOffset :: "Env \<Rightarrow> Time \<Rightarrow> int" where
  "zoneOffset env t =
     (case loc t of UTC \<Rightarrow> 0 | Local \<Rightarrow> localOffset env (unixSec t) | FixedZone n \<Rightarrow> n)"

definition writtenMinutes :: "int \<Rightarrow> int" where
  "writtenMinutes offset = (if offset < 0 then - ((- offset) div 60) else offset div 60)"

definition writtenOffset :: "int \<Rightarrow> int" where
  "writtenOffset offset = 60 * writtenMinutes offset"

definition timeMarshalFails :: "Env \<Rightarrow> Time \<Rightarrow> bool" where
  "timeMarshalFails env t \<longleftrightarrow>
     unixSec t + zoneOffset env t < - 62167219200 \<or>
     253402300800 \<le> unixSec t + zoneOffset env t \<or>
     24 \<le> \<bar>writtenMinutes (zoneOffset env t)\<bar> div 60"

text \<open>
  The timestamp that \<^verbatim>\<open>Time.UnmarshalJSON\<close> reads from that text: the written wall
  clock taken at the written offset, in \<open>UTC\<close> for \<^verbatim>\<open>Z\<close>, in \<open>Local\<close> when the
  machine's zone has the written offset at that instant, and in a fixed zone of the
  written offset otherwise.
\<close>

definition json_Time :: "Env \<Rightarrow> Time \<Rightarrow> Time" where
  "json_Time env t =
     (let offset = zoneOffset env t;
          read = instant t + (offset - writtenOffset offset) * 1000000000
      in \<lparr>instant = read,
          loc = (if offset = 0 then UTC
                 else if localOffset env (read div 1000000000) = writtenOffset offset then Local
                 else FixedZone (writtenOffset offset))\<rparr>)"

definition json_ProjectLock :: "Env \<Rightarrow> ProjectLock \<Rightarrow> ProjectLock" where
  "json_ProjectLock env l =
     \<lparr>Project = json_Project (Project l),
      ProjectLock.Pull = json_PullRequest (ProjectLock.Pull l),
      ProjectLock.Workspace = json_string (ProjectLock.Workspace l),
      Time = json_Time env (Time l)\<rparr>"

subsection \<open>JSON values\<close>

text \<open>
  A stored value, as \<^verbatim>\<open>json.Unmarshal\<close> sees it: \<open>JSON v\<close> decodes to \<open>v\<close>,
  \<open>Garbage\<close> does not decode (this includes the empty value). A byte slice on its way
  into a bucket is its length and that; \<open>nil\<close> is the slice Go leaves in a variable
  when \<^verbatim>\<open>json.Marshal\<close> has failed.
\<close>

datatype 'a serialized = JSON 'a | Garbage

type_synonym 'a bytes = "nat \<times> 'a serialized"

definition nil :: "'a bytes" where
  "nil = (0, Garbage)"

definition json_Unmarshal :: "'a serialized \<Rightarrow> error + 'a" where
  "json_Unmarshal data = (case data of JSON v \<Rightarrow> Inr v | Garbage \<Rightarrow> Inl UnmarshalError)"

definition json_Marshal_ProjectLock :: "Env \<Rightarrow> ProjectLock \<Rightarrow> error + ProjectLock bytes" where
  "json_Marshal_ProjectLock env l =
     (if timeMarshalFails env (Time l) then Inl MarshalError
      else Inr (lockLen env l, JSON (json_ProjectLock env l)))"

definition json_Marshal_PullStatus :: "Env \<Rightarrow> PullStatus \<Rightarrow> error + PullStatus bytes" where
  "json_Marshal_PullStatus env p = Inr (statusLen env p, JSON (json_PullStatus p))"

subsection \<open>Buckets and transactions\<close>

type_synonym 'v bucket = "(string \<times> 'v) list"

definition bucket_Get :: "'v bucket \<Rightarrow> string \<Rightarrow> 'v option" where
  "bucket_Get bucket key = map_of bucket key"

text \<open>The place of a key in the ascending list: a new pair, or a new value for the key.\<close>

fun bucket_insert :: "'v bucket \<Rightarrow> string \<Rightarrow> 'v \<Rightarrow> 'v bucket" where
  "bucket_insert [] key v = [(key, v)]"
| "bucket_insert ((k, w) # rest) key v =
     (if key < k then (key, v) # (k, w) # rest
      else if key = k then (key, v) # rest
      else (k, w) # bucket_insert rest key v)"

definition MaxKeySize :: nat where
  "MaxKeySize = 32768"

definition MaxValueSize :: nat where
  "MaxValueSize = 2147483646"

definition bucket_Put ::
  "'a serialized bucket \<Rightarrow> string \<Rightarrow> 'a bytes \<Rightarrow> 'a serialized bucket \<times> error option" where
  "bucket_Put bucket key val =
     (if key = [] then (bucket, Some ErrKeyRequired)
      else if MaxKeySize < length key then (bucket, Some ErrKeyTooLarge)
      else if MaxValueSize < fst val then (bucket, Some ErrValueTooLarge)
      else (bucket_insert bucket key (snd val), None))"

definition bucket_Delete :: "'v bucket \<Rightarrow> string \<Rightarrow> 'v bucket" where
  "bucket_Delete bucket key = filter (\<lambda>(k, w). k \<noteq> key) bucket"

text \<open>
  \<^verbatim>\<open>Cursor.Seek\<close> moves to the first key at or after the sought one; the rest of the list
  is what \<^verbatim>\<open>Cursor.Next\<close> walks through.
\<close>

definition cursor_Seek :: "'v bucket \<Rightarrow> string \<Rightarrow> 'v bucket" where
  "cursor_Seek bucket seek = dropWhile (\<lambda>(k, w). k < seek) bucket"

text \<open>
  The handle: the two buckets, and the number of transactions begun on the handle so
  far, which makes opening a transaction visible in the state.
\<close>

record BoltDB =
  runLocks :: "ProjectLock serialized bucket"
  pulls :: "PullStatus serialized bucket"
  txCount :: nat

text \<open>
  The function run by \<^verbatim>\<open>db.Update\<close> returns the buckets as it left them and either an
  error or the values it assigned to the variables of the enclosing function.
\<close>

definition db_Update ::
  "BoltDB \<Rightarrow> (BoltDB \<Rightarrow> BoltDB \<times> (error + 'a)) \<Rightarrow> BoltDB \<times> (error + 'a)" where
  "db_Update db fn =
     (case fn db of
        (tx, Inl err) \<Rightarrow> (db\<lparr>txCount := txCount db + 1\<rparr>, Inl err)
      | (tx, Inr r) \<Rightarrow> (tx\<lparr>txCount := txCount db + 1\<rparr>, Inr r))"

text \<open>
  The function run by \<^verbatim>\<open>db.View\<close> only reads; what it returns stands for its error
  together with the variables it assigned.
\<close>

definition db_View :: "BoltDB \<Rightarrow> (BoltDB \<Rightarrow> 'r) \<Rightarrow> BoltDB \<times> 'r" where
  "db_View db fn = (db\<lparr>txCount := txCount db + 1\<rparr>, fn db)"

subsection \<open>Keys\<close>

definition pullKeySeparator :: string where
  "pullKeySeparator = ''::''"

text \<open>\<^verbatim>\<open>fmt.Sprintf("%s/%s/%s", p.RepoFullName, p.Path, workspace)\<close>\<close>

definition lockKey :: "Project \<Rightarrow> string \<Rightarrow> string" where
  "lockKey p workspace = RepoFullName p @ ''/'' @ Path p @ ''/'' @ workspace"

text \<open>The verb \<^verbatim>\<open>%d\<close> of \<^verbatim>\<open>fmt\<close>: a decimal numeral, with a minus sign below zero.\<close>

fun digits :: "nat \<Rightarrow> string" where
  "digits n =
     (if n < 10 then [''0123456789'' ! n]
      else digits (n div 10) @ [''0123456789'' ! (n mod 10)])"

declare digits.simps [simp del]

definition Sprint_d :: "int \<Rightarrow> string" where
  "Sprint_d i = (if i < 0 then CHR ''-'' # digits (nat (- i)) else digits (nat i))"

definition pullKey :: "PullRequest \<Rightarrow> error + string" where
  "pullKey pull =
     (let hostname = Hostname (VCSHost (BaseRepo pull)) in
      if strings_Contains hostname pullKeySeparator then
        Inl (Errorf ''vcs hostname %q contains illegal string %q'' [hostname, pullKeySeparator])
      else
        let repo = FullName (BaseRepo pull) in
        if strings_Contains repo pullKeySeparator then
          Inl (Errorf ''repo name %q contains illegal string %q'' [hostname, pullKeySeparator])
        else Inr (hostname @ ''::'' @ repo @ ''::'' @ Sprint_d (Num pull)))"

subsection \<open>Locks\<close>

text \<open>
  \<^verbatim>\<open>TryLock\<close> keeps neither the error of \<^verbatim>\<open>json.Marshal\<close> (line 75; the slice is
  then \<^verbatim>\<open>nil\<close>) nor the one of \<^verbatim>\<open>bucket.Put\<close> (line 83).
\<close>

definition TryLock ::
  "Env \<Rightarrow> BoltDB \<Rightarrow> ProjectLock \<Rightarrow> BoltDB \<times> (error + bool \<times> ProjectLock)" where
  "TryLock env b newLock =
     (let key = lockKey (ProjectLock.Project newLock) (ProjectLock.Workspace newLock);
          newLockSerialized =
            (case json_Marshal_ProjectLock env newLock of Inl _ \<Rightarrow> nil | Inr s \<Rightarrow> s)
      in case db_Update b (\<lambda>tx.
                case bucket_Get (runLocks tx) key of
                  None \<Rightarrow>
                    (case bucket_Put (runLocks tx) key newLockSerialized of
                       (bucket, _) \<Rightarrow> (tx\<lparr>runLocks := bucket\<rparr>, Inr (True, newLock)))
                | Some currLockSerialized \<Rightarrow>
                    (case json_Unmarshal currLockSerialized of
                       Inl err \<Rightarrow> (tx, Inl (Wrap err ''failed to deserialize current lock''))
                     | Inr currLock \<Rightarrow> (tx, Inr (False, currLock)))) of
           (b', Inl transactionErr) \<Rightarrow> (b', Inl (Wrap transactionErr ''DB transaction failed''))
         | (b', Inr r) \<Rightarrow> (b', Inr r))"

definition Unlock ::
  "BoltDB \<Rightarrow> Project \<Rightarrow> string \<Rightarrow> BoltDB \<times> (error + ProjectLock option)" where
  "Unlock b p workspace =
     (let key = lockKey p workspace
      in case db_Update b (\<lambda>tx.
                case (case bucket_Get (runLocks tx) key of
                        None \<Rightarrow> Inr None
                      | Some serialized \<Rightarrow>
                          (case json_Unmarshal serialized of
                             Inl err \<Rightarrow> Inl (Wrap err ''failed to deserialize lock'')
                           | Inr lock \<Rightarrow> Inr (Some lock))) of
                  Inl err \<Rightarrow> (tx, Inl err)
                | Inr foundLock \<Rightarrow>
                    (tx\<lparr>runLocks := bucket_Delete (runLocks tx) key\<rparr>, Inr foundLock)) of
           (b', Inl err) \<Rightarrow> (b', Inl (Wrap err ''DB transaction failed''))
         | (b', Inr foundLock) \<Rightarrow> (b', Inr foundLock))"

text \<open>
  The scan of \<^verbatim>\<open>UnlockByPull\<close>: from the cursor's position, as long as there is a key
  and it has the prefix; \<open>locks\<close> is the slice collected so far.
\<close>

fun scanLocks ::
  "ProjectLock serialized bucket \<Rightarrow> string \<Rightarrow> int \<Rightarrow> ProjectLock list \<Rightarrow>
   ProjectLock list \<times> error option" where
  "scanLocks [] repoFullName pullNum locks = (locks, None)"
| "scanLocks ((k, v) # rest) repoFullName pullNum locks =
     (if bytes_HasPrefix k repoFullName then
        (case json_Unmarshal v of
           Inl err \<Rightarrow> (locks, Some (Wrapf err ''deserializing lock at key %q'' [k]))
         | Inr lock \<Rightarrow>
             scanLocks rest repoFullName pullNum
               (if Num (ProjectLock.Pull lock) = pullNum then locks @ [lock] else locks))
      else (locks, None))"

text \<open>The second loop of \<^verbatim>\<open>UnlockByPull\<close>: one \<^verbatim>\<open>Unlock\<close> for each lock found.\<close>

fun unlockAll :: "BoltDB \<Rightarrow> ProjectLock list \<Rightarrow> BoltDB \<times> error option" where
  "unlockAll b [] = (b, None)"
| "unlockAll b (lock # rest) =
     (case Unlock b (ProjectLock.Project lock) (ProjectLock.Workspace lock) of
        (b', Inl err) \<Rightarrow>
          (b', Some (Wrapf err ''unlocking repo %s, path %s, workspace %s''
                       [RepoFullName (ProjectLock.Project lock), Path (ProjectLock.Project lock),
                        ProjectLock.Workspace lock]))
      | (b', Inr _) \<Rightarrow> unlockAll b' rest)"

definition UnlockByPull ::
  "BoltDB \<Rightarrow> string \<Rightarrow> int \<Rightarrow> BoltDB \<times> ProjectLock list \<times> error option" where
  "UnlockByPull b repoFullName pullNum =
     (case db_View b (\<lambda>tx.
             scanLocks (cursor_Seek (runLocks tx) repoFullName) repoFullName pullNum []) of
        (b', locks, Some err) \<Rightarrow> (b', locks, Some err)
      | (b', locks, None) \<Rightarrow>
          (case unlockAll b' locks of
             (b'', Some err) \<Rightarrow> (b'', locks, Some err)
           | (b'', None) \<Rightarrow> (b'', locks, None)))"

definition GetLock ::
  "BoltDB \<Rightarrow> Project \<Rightarrow> string \<Rightarrow> BoltDB \<times> (error + ProjectLock option)" where
  "GetLock b p workspace =
     (let key = lockKey p workspace
      in case db_View b (\<lambda>tx. (bucket_Get (runLocks tx) key, None)) of
           (b', lockBytes, Some err) \<Rightarrow> (b', Inl (Wrap err ''getting lock data''))
         | (b', None, None) \<Rightarrow> (b', Inr None)
         | (b', Some lockBytes, None) \<Rightarrow>
             (case json_Unmarshal lockBytes of
                Inl err \<Rightarrow> (b', Inl (Wrapf err ''deserializing lock at key %q'' [key]))
              | Inr lock \<Rightarrow>
                  (b', Inr (Some (lock\<lparr>ProjectLock.Time := Time_Local (ProjectLock.Time lock)\<rparr>)))))"

subsection \<open>Pull statuses\<close>

definition getPullFromBucket ::
  "PullStatus serialized bucket \<Rightarrow> string \<Rightarrow> error + PullStatus option" where
  "getPullFromBucket bucket key =
     (case bucket_Get bucket key of
        None \<Rightarrow> Inr None
      | Some serialized \<Rightarrow>
          (case json_Unmarshal serialized of
             Inl err \<Rightarrow> Inl (Wrapf err ''deserializing pull at %q with contents %q'' [key])
           | Inr p \<Rightarrow> Inr (Some p)))"

definition writePullToBucket ::
  "Env \<Rightarrow> PullStatus serialized bucket \<Rightarrow> string \<Rightarrow> PullStatus \<Rightarrow>
   PullStatus serialized bucket \<times> error option" where
  "writePullToBucket env bucket key pull =
     (case json_Marshal_PullStatus env pull of
        Inl err \<Rightarrow> (bucket, Some (Wrap err ''serializing''))
      | Inr serialized \<Rightarrow> bucket_Put bucket key serialized)"

definition projectResultToProject :: "ProjectResult \<Rightarrow> ProjectStatus" where
  "projectResultToProject p =
     \<lparr>ProjectStatus.Workspace = ProjectResult.Workspace p,
      ProjectStatus.RepoRelDir = ProjectResult.RepoRelDir p,
      ProjectStatus.ProjectName = ProjectResult.ProjectName p,
      ProjectStatus.Status = PlanStatus p\<rparr>"

text \<open>
  The inner loop of the merge: the first project that matches the result gets the
  result's status and the loop breaks; the flag says whether one was found.
\<close>

fun updateExisting :: "ProjectStatus list \<Rightarrow> ProjectResult \<Rightarrow> ProjectStatus list \<times> bool" where
  "updateExisting [] res = ([], False)"
| "updateExisting (proj # rest) res =
     (if ProjectResult.Workspace res = ProjectStatus.Workspace proj \<and>
         ProjectResult.RepoRelDir res = ProjectStatus.RepoRelDir proj \<and>
         ProjectResult.ProjectName res = ProjectStatus.ProjectName proj
      then (proj\<lparr>ProjectStatus.Status := PlanStatus res\<rparr> # rest, True)
      else (case updateExisting rest res of
              (rest', updatedExisting) \<Rightarrow> (proj # rest', updatedExisting)))"

text \<open>The outer loop of the merge, over the new results.\<close>

fun mergeResults :: "ProjectStatus list \<Rightarrow> ProjectResult list \<Rightarrow> ProjectStatus list" where
  "mergeResults projects [] = projects"
| "mergeResults projects (res # rest) =
     (case updateExisting projects res of
        (projects', updatedExisting) \<Rightarrow>
          mergeResults
            (if \<not> updatedExisting then projects' @ [projectResultToProject res] else projects')
            rest)"

definition UpdatePullWithResults ::
  "Env \<Rightarrow> BoltDB \<Rightarrow> PullRequest \<Rightarrow> ProjectResult list \<Rightarrow> BoltDB \<times> (error + PullStatus)" where
  "UpdatePullWithResults env b pull newResults =
     (case pullKey pull of
        Inl err \<Rightarrow> (b, Inl err)
      | Inr key \<Rightarrow>
          (case db_Update b (\<lambda>tx.
                  case getPullFromBucket (pulls tx) key of
                    Inl err \<Rightarrow> (tx, Inl err)
                  | Inr currStatusPtr \<Rightarrow>
                      (let newStatus =
                             (case currStatusPtr of
                                None \<Rightarrow>
                                  \<lparr>Projects = map projectResultToProject newResults,
                                   PullStatus.Pull = pull\<rparr>
                              | Some currStatus \<Rightarrow>
                                  if HeadCommit (PullStatus.Pull currStatus) \<noteq> HeadCommit pull then
                                    \<lparr>Projects = map projectResultToProject newResults,
                                     PullStatus.Pull = pull\<rparr>
                                  else currStatus\<lparr>Projects := mergeResults (Projects currStatus) newResults\<rparr>)
                       in case writePullToBucket env (pulls tx) key newStatus of
                            (bucket, Some err) \<Rightarrow> (tx\<lparr>pulls := bucket\<rparr>, Inl err)
                          | (bucket, None) \<Rightarrow> (tx\<lparr>pulls := bucket\<rparr>, Inr newStatus))) of
             (b', Inl err) \<Rightarrow> (b', Inl (Wrap err ''DB transaction failed''))
           | (b', Inr newStatus) \<Rightarrow> (b', Inr newStatus)))"

definition GetPullStatus ::
  "BoltDB \<Rightarrow> PullRequest \<Rightarrow> BoltDB \<times> (error + PullStatus option)" where
  "GetPullStatus b pull =
     (case pullKey pull of
        Inl err \<Rightarrow> (b, Inl err)
      | Inr key \<Rightarrow>
          (case db_View b (\<lambda>tx. getPullFromBucket (pulls tx) key) of
             (b', Inl err) \<Rightarrow> (b', Inl (Wrap err ''DB transaction failed''))
           | (b', Inr s) \<Rightarrow> (b', Inr s)))"

definition DeletePullStatus :: "BoltDB \<Rightarrow> PullRequest \<Rightarrow> BoltDB \<times> error option" where
  "DeletePullStatus b pull =
     (case pullKey pull of
        Inl err \<Rightarrow> (b, Some err)
      | Inr key \<Rightarrow>
          (case db_Update b (\<lambda>tx. (tx\<lparr>pulls := bucket_Delete (pulls tx) key\<rparr>, Inr ())) of
             (b', Inl err) \<Rightarrow> (b', Some (Wrap err ''DB transaction failed''))
           | (b', Inr _) \<Rightarrow> (b', None)))"

definition DeleteProjectStatus ::
  "Env \<Rightarrow> BoltDB \<Rightarrow> PullRequest \<Rightarrow> string \<Rightarrow> string \<Rightarrow> BoltDB \<times> error option" where
  "DeleteProjectStatus env b pull workspace repoRelDir =
     (case pullKey pull of
        Inl err \<Rightarrow> (b, Some err)
      | Inr key \<Rightarrow>
          (case db_Update b (\<lambda>tx.
                  case getPullFromBucket (pulls tx) key of
                    Inl err \<Rightarrow> (tx, Inl err)
                  | Inr None \<Rightarrow> (tx, Inr ())
                  | Inr (Some currStatus) \<Rightarrow>
                      (let newProjects =
                             filter (\<lambda>p. \<not> (ProjectStatus.Workspace p = workspace \<and>
                                             ProjectStatus.RepoRelDir p = repoRelDir))
                                    (Projects currStatus)
                       in case writePullToBucket env (pulls tx) key
                                 (currStatus\<lparr>Projects := newProjects\<rparr>) of
                            (bucket, Some err) \<Rightarrow> (tx\<lparr>pulls := bucket\<rparr>, Inl err)
                          | (bucket, None) \<Rightarrow> (tx\<lparr>pulls := bucket\<rparr>, Inr ()))) of
             (b', Inl err) \<Rightarrow> (b', Some (Wrap err ''DB transaction failed''))
           | (b', Inr _) \<Rightarrow> (b', None)))"

subsection \<open>The identity of a project within a pull status\<close>

text \<open>
  The merge compares workspace, relative directory and project name; these three make
  up the identity of an entry of a pull status, and of a result.
\<close>

definition projectTuple :: "ProjectStatus \<Rightarrow> string \<times> string \<times> string" where
  "projectTuple p =
     (ProjectStatus.Workspace p, ProjectStatus.RepoRelDir p, ProjectStatus.ProjectName p)"

definition resultTuple :: "ProjectResult \<Rightarrow> string \<times> string \<times> string" where
  "resultTuple r =
     (ProjectResult.Workspace r, ProjectResult.RepoRelDir r, ProjectResult.ProjectName r)"

subsection \<open>The locks a prefix and a pull number select\<close>

text \<open>
  The locks of a bucket whose key begins with \<open>pre\<close> and whose pull request has the
  number \<open>n\<close>, in the order of the keys.
\<close>

fun matchingLocks :: "ProjectLock serialized bucket \<Rightarrow> string \<Rightarrow> int \<Rightarrow> ProjectLock list" where
  "matchingLocks [] pre n = []"
| "matchingLocks ((k, v) # rest) pre n =
     (case v of
        JSON l \<Rightarrow> if prefix pre k \<and> Num (ProjectLock.Pull l) = n
                  then l # matchingLocks rest pre n else matchingLocks rest pre n
      | Garbage \<Rightarrow> matchingLocks rest pre n)"

text \<open>
  The bucket of locks as \<open>TryLock\<close> and \<open>Unlock\<close> keep it: keys strictly ascending,
  and under every key a lock that decodes and whose project and workspace give that key.
\<close>

definition lockBucket_ok :: "ProjectLock serialized bucket \<Rightarrow> bool" where
  "lockBucket_ok bucket \<longleftrightarrow>
     sorted_wrt (<) (map fst bucket) \<and>
     list_all (\<lambda>(k, v). case v of JSON l \<Rightarrow> k = lockKey (Project l) (ProjectLock.Workspace l)
                                | Garbage \<Rightarrow> False) bucket"

text \<open>The bucket after the keys of the given locks have been deleted.\<close>

definition deleteKeys :: "ProjectLock list \<Rightarrow> 'v bucket \<Rightarrow> 'v bucket" where
  "deleteKeys locks bucket =
     fold (\<lambda>l bk. bucket_Delete bk (lockKey (Project l) (ProjectLock.Workspace l))) locks bucket"

subsection \<open>Values used in the examples\<close>

text \<open>
  A machine in UTC; the lengths are stand-ins of the right order for the JSON text of
  the small values below.
\<close>

definition machineUTC :: Env where
  "machineUTC =
     \<lparr>localOffset = (\<lambda>t. 0),
      lockLen = (\<lambda>l. 512),
      statusLen = (\<lambda>s. 256 + 128 * length (Projects s))\<rparr>"

definition emptyDB :: BoltDB where
  "emptyDB = \<lparr>runLocks = [], pulls = [], txCount = 0\<rparr>"

definition pullNo :: "string \<Rightarrow> int \<Rightarrow> string \<Rightarrow> string \<Rightarrow> PullRequest" where
  "pullNo repo n commit author =
     \<lparr>Num = n, HeadCommit = commit, Author = author, Branch = ''feature'',
      BaseRepo = \<lparr>FullName = repo, VCSHost = \<lparr>Hostname = ''github.com''\<rparr>\<rparr>\<rparr>"

definition lockOf :: "string \<Rightarrow> string \<Rightarrow> int \<Rightarrow> ProjectLock" where
  "lockOf repo workspace n =
     \<lparr>Project = \<lparr>RepoFullName = repo, Path = ''.''\<rparr>,
      ProjectLock.Pull = pullNo repo n ''c0ffee'' ''lkysow'',
      ProjectLock.Workspace = workspace,
      Time = \<lparr>instant = 1500000000000000000, loc = FixedZone 3600\<rparr>\<rparr>"

definition statusOf :: "string \<Rightarrow> string \<Rightarrow> string \<Rightarrow> int \<Rightarrow> ProjectStatus" where
  "statusOf w d n s =
     \<lparr>ProjectStatus.Workspace = w, ProjectStatus.RepoRelDir = d,
      ProjectStatus.ProjectName = n, Status = s\<rparr>"

definition resultOf :: "string \<Rightarrow> string \<Rightarrow> string \<Rightarrow> int \<Rightarrow> ProjectResult" where
  "resultOf w d n s =
     \<lparr>ProjectResult.Workspace = w, ProjectResult.RepoRelDir = d,
      ProjectResult.ProjectName = n, PlanStatus = s\<rparr>"

definition lockedDB :: BoltDB where
  "lockedDB =
     \<lparr>runLocks = [(''org/repo/./default'', JSON (lockOf ''org/repo'' ''default'' 42))],
      pulls = [], txCount = 1\<rparr>"

definition storedDB :: "string \<Rightarrow> PullStatus \<Rightarrow> BoltDB" where
  "storedDB key status = \<lparr>runLocks = [], pulls = [(key, JSON status)], txCount = 1\<rparr>"

text \<open>The form in which \<open>TryLock machineUTC\<close> writes a lock.\<close>

definition written :: "ProjectLock \<Rightarrow> ProjectLock" where
  "written l = json_ProjectLock machineUTC l"

definition threeLocksDB :: BoltDB where
  "threeLocksDB =
     \<lparr>runLocks =
        [(''org/repo-other/./default'', JSON (written (lockOf ''org/repo-other'' ''default'' 42))),
         (''org/repo/./default'', JSON (written (lockOf ''org/repo'' ''default'' 42))),
         (''org/repo/./staging'', JSON (written (lockOf ''org/repo'' ''staging'' 43)))],
      pulls = [], txCount = 3\<rparr>"


definition year10000 :: Time where
  "year10000 = \<lparr>instant = 253402300800000000000, loc = UTC\<rparr>"

section \<open>Properties\<close>

subsection \<open>Buckets behave as maps\<close>

lemma bucket_Get_insert:
  "bucket_Get (bucket_insert bucket key v) k = (if k = key then Some v else bucket_Get bucket k)"
  by (induction bucket) (auto simp: bucket_Get_def)

lemma bucket_Get_Delete:
  "bucket_Get (bucket_Delete bucket key) k = (if k = key then None else bucket_Get bucket k)"
  by (induction bucket) (auto simp: bucket_Get_def bucket_Delete_def)

lemma bucket_Delete_absent:
  "bucket_Get bucket key = None \<Longrightarrow> bucket_Delete bucket key = bucket"
  by (induction bucket) (auto simp: bucket_Get_def bucket_Delete_def split: if_splits)

lemma bucket_Put_accepted:
  "key \<noteq> [] \<Longrightarrow> length key \<le> MaxKeySize \<Longrightarrow> fst val \<le> MaxValueSize \<Longrightarrow>
   bucket_Put bucket key val = (bucket_insert bucket key (snd val), None)"
  by (simp add: bucket_Put_def)

lemma bucket_Put_refused:
  "key = [] \<or> MaxKeySize < length key \<or> MaxValueSize < fst val \<Longrightarrow>
   fst (bucket_Put bucket key val) = bucket"
  by (auto simp: bucket_Put_def)

lemma lockKey_not_empty [simp]: "lockKey p workspace \<noteq> []"
  by (simp add: lockKey_def)

subsection \<open>Strings that JSON leaves as they are\<close>

lemma runeLen_le: "runeLen bs \<le> length bs"
  by (cases bs) (auto split: list.splits)

lemma runeLen_take:
  "0 < runeLen bs \<Longrightarrow> runeLen (take (runeLen bs) bs @ t) = runeLen bs"
  by (cases bs) (auto split: list.splits if_splits)

lemma runeLen_RuneError: "runeLen (map of_char (RuneError @ t)) = 3"
  by (simp add: RuneError_def cont_def second3_def)

lemma json_string_RuneError: "json_string (RuneError @ t) = RuneError @ json_string t"
proof -
  have "RuneError @ t = CHR 0xEF # (CHR 0xBF # CHR 0xBD # t)"
    by (simp add: RuneError_def)
  then show ?thesis
    using runeLen_RuneError [of t] by (simp add: json_string.simps(2) RuneError_def)
qed

lemma json_string_rune:
  assumes "0 < runeLen (map of_char s)"
  shows "json_string (take (runeLen (map of_char s)) s @ t) =
           take (runeLen (map of_char s)) s @ json_string t"
proof -
  let ?n = "runeLen (map of_char s)"
  obtain c r where s: "s = c # r" using assms by (cases s) auto
  have le: "?n \<le> length s" using runeLen_le [of "map of_char s"] by simp
  have n: "runeLen (map of_char (take ?n s @ t)) = ?n"
    using runeLen_take [OF assms, of "map of_char t"] by (simp add: take_map)
  obtain c' r' where tk: "take ?n s @ t = c' # r'"
    using assms s by (cases "take ?n s @ t") auto
  have "json_string (c' # r') = take ?n (c' # r') @ json_string (drop ?n (c' # r'))"
    using n assms tk by (simp add: json_string.simps(2) Let_def)
  moreover have "take ?n (take ?n s @ t) = take ?n s" "drop ?n (take ?n s @ t) = t"
    using le by simp_all
  ultimately show ?thesis
    using tk by metis
qed

text \<open>What has been through JSON once goes through unchanged.\<close>

lemma json_string_idem: "json_string (json_string s) = json_string s"
proof (induction s rule: json_string.induct)
  case 1
  show ?case by simp
next
  case (2 c s)
  show ?case
  proof (cases "runeLen (map of_char (c # s)) = 0")
    case True
    then show ?thesis
      using 2 by (simp add: json_string.simps(2) [of c s] json_string_RuneError)
  next
    case False
    then show ?thesis
      using 2 json_string_rune [of "c # s"
          "json_string (drop (runeLen (map of_char (c # s))) (c # s))"]
      by (simp add: json_string.simps(2) [of c s] Let_def)
  qed
qed

lemma json_ProjectStatus_idem: "json_ProjectStatus (json_ProjectStatus p) = json_ProjectStatus p"
  by (simp add: json_ProjectStatus_def json_string_idem)

lemma json_PullRequest_idem: "json_PullRequest (json_PullRequest p) = json_PullRequest p"
  by (simp add: json_PullRequest_def json_Repo_def json_string_idem)

lemma json_PullStatus_idem: "json_PullStatus (json_PullStatus s) = json_PullStatus s"
  by (simp add: json_PullStatus_def json_ProjectStatus_idem json_PullRequest_idem)

text \<open>The strings of the examples are ASCII.\<close>

lemma json_string_examples [simp]:
  "json_string ''org/repo'' = ''org/repo''"
  "json_string ''org/repo-other'' = ''org/repo-other''"
  "json_string ''.'' = ''.''"
  "json_string ''default'' = ''default''"
  "json_string ''staging'' = ''staging''"
  "json_string ''github.com'' = ''github.com''"
  "json_string ''c0ffee'' = ''c0ffee''"
  "json_string ''beef'' = ''beef''"
  "json_string ''lkysow'' = ''lkysow''"
  "json_string ''alice'' = ''alice''"
  "json_string ''bob'' = ''bob''"
  "json_string ''feature'' = ''feature''"
  "json_string ''dir1'' = ''dir1''"
  "json_string ''dir2'' = ''dir2''"
  "json_string ''a'' = ''a''"
  "json_string ''b'' = ''b''"
  "json_string ''p'' = ''p''"
  "json_string ''q'' = ''q''"
  "json_string ''x'' = ''x''"
  "json_string ''y'' = ''y''"
  "json_string ''p1'' = ''p1''"
  "json_string ''p2'' = ''p2''"
  "json_string ''p3'' = ''p3''"
  by (simp_all add: json_string.simps(2))

lemma json_string_FF: "json_string [CHR 0xFF] = RuneError"
  by (simp add: json_string.simps(2))

lemma whole_minutes: "offset mod 60 = 0 \<Longrightarrow> writtenOffset offset = offset"
  by (auto simp: writtenOffset_def writtenMinutes_def)

subsection \<open>Acquiring a lock\<close>



lemma TryLock_free:
  "bucket_Get (runLocks b) (lockKey (Project newLock) (ProjectLock.Workspace newLock)) = None \<Longrightarrow>
   snd (TryLock env b newLock) = Inr (True, newLock)"
  by (simp add: TryLock_def db_Update_def Let_def split: prod.splits)

lemma TryLock_written:
  "bucket_Get (runLocks b) (lockKey (Project newLock) (ProjectLock.Workspace newLock)) = None \<Longrightarrow>
   length (lockKey (Project newLock) (ProjectLock.Workspace newLock)) \<le> MaxKeySize \<Longrightarrow>
   \<not> timeMarshalFails env (Time newLock) \<Longrightarrow>
   lockLen env newLock \<le> MaxValueSize \<Longrightarrow>
   TryLock env b newLock =
     (b\<lparr>runLocks :=
          bucket_insert (runLocks b) (lockKey (Project newLock) (ProjectLock.Workspace newLock))
            (JSON (json_ProjectLock env newLock)),
        txCount := txCount b + 1\<rparr>,
      Inr (True, newLock))"
  by (simp add: TryLock_def db_Update_def json_Marshal_ProjectLock_def Let_def
        bucket_Put_accepted)


text \<open>A timestamp that JSON cannot write: the key then holds the empty value.\<close>

lemma TryLock_time_not_written:
  "bucket_Get (runLocks b) (lockKey (Project newLock) (ProjectLock.Workspace newLock)) = None \<Longrightarrow>
   length (lockKey (Project newLock) (ProjectLock.Workspace newLock)) \<le> MaxKeySize \<Longrightarrow>
   timeMarshalFails env (Time newLock) \<Longrightarrow>
   TryLock env b newLock =
     (b\<lparr>runLocks :=
          bucket_insert (runLocks b) (lockKey (Project newLock) (ProjectLock.Workspace newLock))
            Garbage,
        txCount := txCount b + 1\<rparr>,
      Inr (True, newLock))"
  by (simp add: TryLock_def db_Update_def json_Marshal_ProjectLock_def Let_def
        bucket_Put_def nil_def MaxValueSize_def)

lemma lockKey_lockOf [simp]:
  "lockKey (Project (lockOf repo w n)) (ProjectLock.Workspace (lockOf repo w n)) =
     repo @ ''/./'' @ w"
  by (simp add: lockKey_def lockOf_def)

lemma machineUTC_writes_lockOf:
  "\<not> timeMarshalFails machineUTC (Time (lockOf repo w n))"
  "lockLen machineUTC l \<le> MaxValueSize"
  "json_Time machineUTC (Time (lockOf repo w n)) = Time (lockOf repo w n)"
  by (simp_all add: timeMarshalFails_def machineUTC_def lockOf_def unixSec_def zoneOffset_def
        writtenMinutes_def writtenOffset_def MaxValueSize_def json_Time_def)






subsection \<open>Reading a lock back\<close>

lemma GetLock_present:
  "bucket_Get (runLocks b) (lockKey p workspace) = Some (JSON lock) \<Longrightarrow>
   GetLock b p workspace =
     (b\<lparr>txCount := txCount b + 1\<rparr>, Inr (Some (lock\<lparr>Time := Time_Local (Time lock)\<rparr>)))"
  by (simp add: GetLock_def db_View_def Let_def json_Unmarshal_def)

lemma GetLock_absent:
  "bucket_Get (runLocks b) (lockKey p workspace) = None \<Longrightarrow>
   GetLock b p workspace = (b\<lparr>txCount := txCount b + 1\<rparr>, Inr None)"
  by (simp add: GetLock_def db_View_def Let_def)

lemma GetLock_undecodable:
  "bucket_Get (runLocks b) (lockKey p workspace) = Some Garbage \<Longrightarrow>
   GetLock b p workspace =
     (b\<lparr>txCount := txCount b + 1\<rparr>,
      Inl (Wrapf UnmarshalError ''deserializing lock at key %q'' [lockKey p workspace]))"
  by (simp add: GetLock_def db_View_def Let_def json_Unmarshal_def)

lemma json_Time_whole_minutes:
  "zoneOffset env t mod 60 = 0 \<Longrightarrow> Time_Local (json_Time env t) = Time_Local t"
  by (simp add: json_Time_def Time_Local_def Let_def whole_minutes)

lemma json_ProjectLock_valid:
  "json_Project (Project L) = Project L \<Longrightarrow>
   json_PullRequest (ProjectLock.Pull L) = ProjectLock.Pull L \<Longrightarrow>
   json_string (ProjectLock.Workspace L) = ProjectLock.Workspace L \<Longrightarrow>
   json_ProjectLock env L = L\<lparr>Time := json_Time env (Time L)\<rparr>"
  by (cases L) (simp add: json_ProjectLock_def)

text \<open>
  C8, as the file has it. A lock \<open>L\<close> that is acquired into a free key and that BoltDB
  and JSON take (key of at most 32768 bytes, value of at most 2147483646 bytes, year 0
  to 9999, zone of less than 24 hours) is read back by \<open>GetLock\<close> in its JSON form, with
  the location set to \<open>Local\<close>. When the strings of \<open>L\<close> are valid UTF-8 and the
  offset of its zone is a whole number of minutes, that is \<open>L\<close> itself with its
  timestamp in the local zone, at the same instant.
\<close>

theorem TryLock_then_GetLock:
  "bucket_Get (runLocks b) (lockKey (Project L) (ProjectLock.Workspace L)) = None \<Longrightarrow>
   length (lockKey (Project L) (ProjectLock.Workspace L)) \<le> MaxKeySize \<Longrightarrow>
   \<not> timeMarshalFails env (Time L) \<Longrightarrow>
   lockLen env L \<le> MaxValueSize \<Longrightarrow>
   snd (TryLock env b L) = Inr (True, L) \<and>
   snd (GetLock (fst (TryLock env b L)) (Project L) (ProjectLock.Workspace L)) =
     Inr (Some ((json_ProjectLock env L)\<lparr>Time := Time_Local (json_Time env (Time L))\<rparr>)) \<and>
   (json_Project (Project L) = Project L \<and>
    json_PullRequest (ProjectLock.Pull L) = ProjectLock.Pull L \<and>
    json_string (ProjectLock.Workspace L) = ProjectLock.Workspace L \<and>
    zoneOffset env (Time L) mod 60 = 0 \<longrightarrow>
    snd (GetLock (fst (TryLock env b L)) (Project L) (ProjectLock.Workspace L)) =
      Inr (Some (L\<lparr>Time := Time_Local (Time L)\<rparr>)))"
proof -
  assume free: "bucket_Get (runLocks b) (lockKey (Project L) (ProjectLock.Workspace L)) = None"
    and len: "length (lockKey (Project L) (ProjectLock.Workspace L)) \<le> MaxKeySize"
    and time: "\<not> timeMarshalFails env (Time L)"
    and val: "lockLen env L \<le> MaxValueSize"
  have get: "snd (GetLock (fst (TryLock env b L)) (Project L) (ProjectLock.Workspace L)) =
     Inr (Some ((json_ProjectLock env L)\<lparr>Time := Time_Local (json_Time env (Time L))\<rparr>))"
    by (simp add: TryLock_written [OF free len time val] GetLock_present bucket_Get_insert)
      (simp add: json_ProjectLock_def)
  have "(json_ProjectLock env L)\<lparr>Time := Time_Local (json_Time env (Time L))\<rparr> =
          L\<lparr>Time := Time_Local (Time L)\<rparr>"
    if "json_Project (Project L) = Project L"
      "json_PullRequest (ProjectLock.Pull L) = ProjectLock.Pull L"
      "json_string (ProjectLock.Workspace L) = ProjectLock.Workspace L"
      "zoneOffset env (Time L) mod 60 = 0"
    using that by (simp add: json_ProjectLock_valid json_Time_whole_minutes)
  then show ?thesis
    using get TryLock_free [OF free, of env] by simp
qed

theorem TryLock_then_GetLock_witness:
  "bucket_Get (runLocks emptyDB) ''org/repo/./default'' = None \<and>
   length ''org/repo/./default'' \<le> MaxKeySize \<and>
   \<not> timeMarshalFails machineUTC (Time (lockOf ''org/repo'' ''default'' 43)) \<and>
   lockLen machineUTC (lockOf ''org/repo'' ''default'' 43) \<le> MaxValueSize \<and>
   zoneOffset machineUTC (Time (lockOf ''org/repo'' ''default'' 43)) mod 60 = 0 \<and>
   json_string ''default'' = ''default'' \<and>
   snd (GetLock (fst (TryLock machineUTC emptyDB (lockOf ''org/repo'' ''default'' 43)))
          \<lparr>RepoFullName = ''org/repo'', Path = ''.''\<rparr> ''default'') =
     Inr (Some ((lockOf ''org/repo'' ''default'' 43)
                  \<lparr>Time := \<lparr>instant = 1500000000000000000, loc = Local\<rparr>\<rparr>))"
proof -
  have free: "bucket_Get (runLocks emptyDB) ''org/repo/./default'' = None"
    by (simp add: emptyDB_def bucket_Get_def)
  have len: "length ''org/repo/./default'' \<le> MaxKeySize"
    by (simp add: MaxKeySize_def)
  have p: "Project (lockOf ''org/repo'' ''default'' 43) =
             \<lparr>RepoFullName = ''org/repo'', Path = ''.''\<rparr>"
    and w: "ProjectLock.Workspace (lockOf ''org/repo'' ''default'' 43) = ''default''"
    and t: "Time_Local (Time (lockOf ''org/repo'' ''default'' 43)) =
              \<lparr>instant = 1500000000000000000, loc = Local\<rparr>"
    and z: "zoneOffset machineUTC (Time (lockOf ''org/repo'' ''default'' 43)) mod 60 = 0"
    and s: "json_Project (Project (lockOf ''org/repo'' ''default'' 43)) =
              Project (lockOf ''org/repo'' ''default'' 43)"
      "json_PullRequest (ProjectLock.Pull (lockOf ''org/repo'' ''default'' 43)) =
         ProjectLock.Pull (lockOf ''org/repo'' ''default'' 43)"
    by (simp_all add: lockOf_def pullNo_def Time_Local_def zoneOffset_def json_Project_def
          json_PullRequest_def json_Repo_def)
  have k: "lockKey \<lparr>RepoFullName = ''org/repo'', Path = ''.''\<rparr> ''default'' =
             ''org/repo/./default''"
    by (simp add: lockKey_def)
  have free': "bucket_Get (runLocks emptyDB)
                 (lockKey (Project (lockOf ''org/repo'' ''default'' 43))
                    (ProjectLock.Workspace (lockOf ''org/repo'' ''default'' 43))) = None"
    and len': "length (lockKey (Project (lockOf ''org/repo'' ''default'' 43))
                 (ProjectLock.Workspace (lockOf ''org/repo'' ''default'' 43))) \<le> MaxKeySize"
    using free len by simp_all
  have v: "json_string (ProjectLock.Workspace (lockOf ''org/repo'' ''default'' 43)) =
             ProjectLock.Workspace (lockOf ''org/repo'' ''default'' 43)"
    by (simp add: w)
  have "snd (GetLock (fst (TryLock machineUTC emptyDB (lockOf ''org/repo'' ''default'' 43)))
          (Project (lockOf ''org/repo'' ''default'' 43))
          (ProjectLock.Workspace (lockOf ''org/repo'' ''default'' 43))) =
        Inr (Some ((lockOf ''org/repo'' ''default'' 43)
                     \<lparr>Time := Time_Local (Time (lockOf ''org/repo'' ''default'' 43))\<rparr>))"
    using TryLock_then_GetLock [OF free' len' machineUTC_writes_lockOf(1,2)] z s v
    by blast
  then show ?thesis
    using free len machineUTC_writes_lockOf(1,2) z by (simp add: p w t)
qed

text \<open>
  C8 as stated fails for a lock whose workspace is the byte \<open>FF\<close>: the key is made of
  the byte, the JSON text has U+FFFD in its place, and that is what \<open>GetLock\<close>
  returns.
\<close>

theorem TryLock_then_GetLock_counterexample:
  "bucket_Get (runLocks emptyDB)
     (lockKey (Project (lockOf ''org/repo'' [CHR 0xFF] 42)) [CHR 0xFF]) = None \<and>
   snd (TryLock machineUTC emptyDB (lockOf ''org/repo'' [CHR 0xFF] 42)) =
     Inr (True, lockOf ''org/repo'' [CHR 0xFF] 42) \<and>
   snd (GetLock (fst (TryLock machineUTC emptyDB (lockOf ''org/repo'' [CHR 0xFF] 42)))
          (Project (lockOf ''org/repo'' [CHR 0xFF] 42)) [CHR 0xFF]) =
     Inr (Some ((lockOf ''org/repo'' [CHR 0xFF] 42)
                  \<lparr>ProjectLock.Workspace := [CHR 0xEF, CHR 0xBF, CHR 0xBD],
                   Time := \<lparr>instant = 1500000000000000000, loc = Local\<rparr>\<rparr>)) \<and>
   (lockOf ''org/repo'' [CHR 0xFF] 42)
      \<lparr>ProjectLock.Workspace := [CHR 0xEF, CHR 0xBF, CHR 0xBD],
       Time := \<lparr>instant = 1500000000000000000, loc = Local\<rparr>\<rparr> \<noteq>
   (lockOf ''org/repo'' [CHR 0xFF] 42)
      \<lparr>Time := Time_Local (Time (lockOf ''org/repo'' [CHR 0xFF] 42))\<rparr>"
proof -
  have w: "ProjectLock.Workspace (lockOf ''org/repo'' [CHR 0xFF] 42) = [CHR 0xFF]"
    by (simp add: lockOf_def)
  have free: "bucket_Get (runLocks emptyDB)
                (lockKey (Project (lockOf ''org/repo'' [CHR 0xFF] 42)) [CHR 0xFF]) = None"
    by (simp add: emptyDB_def bucket_Get_def)
  have len: "length (lockKey (Project (lockOf ''org/repo'' [CHR 0xFF] 42)) [CHR 0xFF]) \<le> MaxKeySize"
    by (simp add: lockKey_def lockOf_def MaxKeySize_def)
  have j: "(json_ProjectLock machineUTC (lockOf ''org/repo'' [CHR 0xFF] 42))
             \<lparr>Time := Time_Local (json_Time machineUTC (Time (lockOf ''org/repo'' [CHR 0xFF] 42)))\<rparr> =
           (lockOf ''org/repo'' [CHR 0xFF] 42)
             \<lparr>ProjectLock.Workspace := [CHR 0xEF, CHR 0xBF, CHR 0xBD],
              Time := \<lparr>instant = 1500000000000000000, loc = Local\<rparr>\<rparr>"
    using machineUTC_writes_lockOf(3) [of "''org/repo''" "[CHR 0xFF]" 42]
    by (simp add: json_ProjectLock_def)
      (simp add: lockOf_def pullNo_def json_Project_def json_PullRequest_def json_Repo_def
         json_string_FF RuneError_def Time_Local_def)
  have ne: "(lockOf ''org/repo'' [CHR 0xFF] 42)
      \<lparr>ProjectLock.Workspace := [CHR 0xEF, CHR 0xBF, CHR 0xBD],
       Time := \<lparr>instant = 1500000000000000000, loc = Local\<rparr>\<rparr> \<noteq>
   (lockOf ''org/repo'' [CHR 0xFF] 42)
      \<lparr>Time := Time_Local (Time (lockOf ''org/repo'' [CHR 0xFF] 42))\<rparr>"
    by (simp add: lockOf_def)
  have r: "snd (TryLock machineUTC emptyDB (lockOf ''org/repo'' [CHR 0xFF] 42)) =
             Inr (True, lockOf ''org/repo'' [CHR 0xFF] 42)"
    "snd (GetLock (fst (TryLock machineUTC emptyDB (lockOf ''org/repo'' [CHR 0xFF] 42)))
          (Project (lockOf ''org/repo'' [CHR 0xFF] 42)) [CHR 0xFF]) =
     Inr (Some ((json_ProjectLock machineUTC (lockOf ''org/repo'' [CHR 0xFF] 42))
             \<lparr>Time := Time_Local (json_Time machineUTC (Time (lockOf ''org/repo'' [CHR 0xFF] 42)))\<rparr>))"
    using free len machineUTC_writes_lockOf(1,2)
      TryLock_written [of emptyDB "lockOf ''org/repo'' [CHR 0xFF] 42" machineUTC]
    by (simp_all add: w GetLock_present bucket_Get_insert json_ProjectLock_def)
  show ?thesis
    using free ne r by (simp add: j)
qed

text \<open>
  Two more locks that do not come back as they went in: with a zone offset of 3601
  seconds the instant read back is one second later, and with a timestamp in the year
  10000 the key holds the empty value and \<open>GetLock\<close> fails to decode it.
\<close>

lemma GetLock_offset_with_seconds:
  "snd (GetLock
          (fst (TryLock machineUTC emptyDB
                  ((lockOf ''org/repo'' ''default'' 42)
                     \<lparr>Time := \<lparr>instant = 1500000000000000000, loc = FixedZone 3601\<rparr>\<rparr>)))
          \<lparr>RepoFullName = ''org/repo'', Path = ''.''\<rparr> ''default'') =
     Inr (Some ((lockOf ''org/repo'' ''default'' 42)
                  \<lparr>Time := \<lparr>instant = 1500000001000000000, loc = Local\<rparr>\<rparr>))"
proof -
  let ?L = "(lockOf ''org/repo'' ''default'' 42)
              \<lparr>Time := \<lparr>instant = 1500000000000000000, loc = FixedZone 3601\<rparr>\<rparr>"
  have k: "lockKey (Project ?L) (ProjectLock.Workspace ?L) = ''org/repo/./default''"
    "lockKey \<lparr>RepoFullName = ''org/repo'', Path = ''.''\<rparr> ''default'' = ''org/repo/./default''"
    by (simp_all add: lockKey_def lockOf_def)
  have free: "bucket_Get (runLocks emptyDB) ''org/repo/./default'' = None"
    by (simp add: emptyDB_def bucket_Get_def)
  have w: "\<not> timeMarshalFails machineUTC (Time ?L)" "lockLen machineUTC ?L \<le> MaxValueSize"
    "length ''org/repo/./default'' \<le> MaxKeySize"
    by (simp_all add: timeMarshalFails_def machineUTC_def unixSec_def zoneOffset_def
          writtenMinutes_def MaxValueSize_def MaxKeySize_def)
  have j: "(json_ProjectLock machineUTC ?L)\<lparr>Time := Time_Local (Time (json_ProjectLock machineUTC ?L))\<rparr> =
           (lockOf ''org/repo'' ''default'' 42)
              \<lparr>Time := \<lparr>instant = 1500000001000000000, loc = Local\<rparr>\<rparr>"
    by (simp add: json_ProjectLock_def lockOf_def pullNo_def json_Project_def
          json_PullRequest_def json_Repo_def json_Time_def zoneOffset_def writtenOffset_def
          writtenMinutes_def Time_Local_def machineUTC_def)
  show ?thesis
    using TryLock_written [of emptyDB ?L machineUTC] free w
    by (simp add: k GetLock_present bucket_Get_insert j)
qed

lemma GetLock_year_10000:
  "snd (GetLock
          (fst (TryLock machineUTC emptyDB ((lockOf ''org/repo'' ''default'' 42)\<lparr>Time := year10000\<rparr>)))
          \<lparr>RepoFullName = ''org/repo'', Path = ''.''\<rparr> ''default'') =
     Inl (Wrapf UnmarshalError ''deserializing lock at key %q'' [''org/repo/./default''])"
proof -
  let ?L = "(lockOf ''org/repo'' ''default'' 42)\<lparr>Time := year10000\<rparr>"
  have k: "lockKey (Project ?L) (ProjectLock.Workspace ?L) = ''org/repo/./default''"
    "lockKey \<lparr>RepoFullName = ''org/repo'', Path = ''.''\<rparr> ''default'' = ''org/repo/./default''"
    by (simp_all add: lockKey_def lockOf_def)
  have free: "bucket_Get (runLocks emptyDB) ''org/repo/./default'' = None"
    by (simp add: emptyDB_def bucket_Get_def)
  have w: "timeMarshalFails machineUTC (Time ?L)" "length ''org/repo/./default'' \<le> MaxKeySize"
    by (simp_all add: timeMarshalFails_def machineUTC_def unixSec_def zoneOffset_def
          year10000_def MaxKeySize_def)
  show ?thesis
    using TryLock_time_not_written [of emptyDB ?L machineUTC] free w
      GetLock_undecodable [of "fst (TryLock machineUTC emptyDB ?L)"
        "\<lparr>RepoFullName = ''org/repo'', Path = ''.''\<rparr>" "''default''"]
    by (simp add: k bucket_Get_insert)
qed


subsection \<open>Releasing a lock\<close>

lemma Unlock_absent:
  "bucket_Get (runLocks b) (lockKey p workspace) = None \<Longrightarrow>
   Unlock b p workspace = (b\<lparr>txCount := txCount b + 1\<rparr>, Inr None)"
  by (simp add: Unlock_def db_Update_def Let_def bucket_Delete_absent)

lemma Unlock_present:
  "bucket_Get (runLocks b) (lockKey p workspace) = Some (JSON lock) \<Longrightarrow>
   Unlock b p workspace =
     (b\<lparr>runLocks := bucket_Delete (runLocks b) (lockKey p workspace),
        txCount := txCount b + 1\<rparr>,
      Inr (Some lock))"
  by (simp add: Unlock_def db_Update_def Let_def json_Unmarshal_def)

text \<open>
  C9. \<open>Unlock\<close> on a key that holds nothing returns no lock and no error and leaves
  the bucket of locks as it was; on a key that holds a lock it returns that lock, the
  key holds nothing afterwards, and every other key holds what it held.
\<close>

theorem Unlock_absent_or_present:
  "(bucket_Get (runLocks b) (lockKey p workspace) = None \<longrightarrow>
    snd (Unlock b p workspace) = Inr None \<and>
    runLocks (fst (Unlock b p workspace)) = runLocks b) \<and>
   (bucket_Get (runLocks b) (lockKey p workspace) = Some (JSON lock) \<longrightarrow>
    snd (Unlock b p workspace) = Inr (Some lock) \<and>
    bucket_Get (runLocks (fst (Unlock b p workspace))) k =
      (if k = lockKey p workspace then None else bucket_Get (runLocks b) k))"
  by (simp add: Unlock_absent Unlock_present bucket_Get_Delete)

theorem Unlock_absent_or_present_witness:
  "bucket_Get (runLocks lockedDB) (lockKey \<lparr>RepoFullName = ''org/repo'', Path = ''.''\<rparr> ''staging'') =
     None \<and>
   Unlock lockedDB \<lparr>RepoFullName = ''org/repo'', Path = ''.''\<rparr> ''staging'' =
     (lockedDB\<lparr>txCount := 2\<rparr>, Inr None) \<and>
   bucket_Get (runLocks lockedDB) (lockKey \<lparr>RepoFullName = ''org/repo'', Path = ''.''\<rparr> ''default'') =
     Some (JSON (lockOf ''org/repo'' ''default'' 42)) \<and>
   Unlock lockedDB \<lparr>RepoFullName = ''org/repo'', Path = ''.''\<rparr> ''default'' =
     (emptyDB\<lparr>txCount := 2\<rparr>, Inr (Some (lockOf ''org/repo'' ''default'' 42)))"
proof -
  have absent: "bucket_Get (runLocks lockedDB)
                  (lockKey \<lparr>RepoFullName = ''org/repo'', Path = ''.''\<rparr> ''staging'') = None"
    by (simp add: lockedDB_def bucket_Get_def lockKey_def)
  have present: "bucket_Get (runLocks lockedDB)
                   (lockKey \<lparr>RepoFullName = ''org/repo'', Path = ''.''\<rparr> ''default'') =
                   Some (JSON (lockOf ''org/repo'' ''default'' 42))"
    by (simp add: lockedDB_def bucket_Get_def lockKey_def)
  have 1: "Unlock lockedDB \<lparr>RepoFullName = ''org/repo'', Path = ''.''\<rparr> ''staging'' =
             (lockedDB\<lparr>txCount := 2\<rparr>, Inr None)"
    using absent
      Unlock_absent_or_present [where b = lockedDB
        and p = "\<lparr>RepoFullName = ''org/repo'', Path = ''.''\<rparr>" and workspace = "''staging''"]
    by (simp add: Unlock_def db_Update_def Let_def lockedDB_def prod_eq_iff)
  have 2: "Unlock lockedDB \<lparr>RepoFullName = ''org/repo'', Path = ''.''\<rparr> ''default'' =
             (emptyDB\<lparr>txCount := 2\<rparr>, Inr (Some (lockOf ''org/repo'' ''default'' 42)))"
    using present
      Unlock_absent_or_present [where b = lockedDB
        and p = "\<lparr>RepoFullName = ''org/repo'', Path = ''.''\<rparr>" and workspace = "''default''"
        and lock = "lockOf ''org/repo'' ''default'' 42"]
    by (simp add: Unlock_def db_Update_def Let_def lockedDB_def emptyDB_def prod_eq_iff
          bucket_Delete_def bucket_Get_def lockKey_def json_Unmarshal_def)
  show ?thesis using absent present 1 2 by simp
qed

subsection \<open>Keys of pull statuses\<close>

lemma strings_Contains_sublist: "strings_Contains s substr \<longleftrightarrow> sublist substr s"
  by (induction s) (auto simp: sublist_Cons_right)

lemma pullKey_valid:
  "\<not> strings_Contains (Hostname (VCSHost (BaseRepo pull))) pullKeySeparator \<Longrightarrow>
   \<not> strings_Contains (FullName (BaseRepo pull)) pullKeySeparator \<Longrightarrow>
   pullKey pull =
     Inr (Hostname (VCSHost (BaseRepo pull)) @ ''::'' @ FullName (BaseRepo pull) @ ''::'' @
          Sprint_d (Num pull))"
  by (simp add: pullKey_def Let_def)

lemma pullKey_invalid:
  "strings_Contains (Hostname (VCSHost (BaseRepo pull))) pullKeySeparator \<or>
   strings_Contains (FullName (BaseRepo pull)) pullKeySeparator \<Longrightarrow>
   pullKey pull =
     Inl (Errorf (if strings_Contains (Hostname (VCSHost (BaseRepo pull))) pullKeySeparator
                  then ''vcs hostname %q contains illegal string %q''
                  else ''repo name %q contains illegal string %q'')
            [Hostname (VCSHost (BaseRepo pull)), pullKeySeparator])"
  by (auto simp add: pullKey_def Let_def)

lemma pullKey_pullNo_42 [simp]:
  "pullKey (pullNo ''org/repo'' 42 commit author) = Inr ''github.com::org/repo::42''"
  by (simp add: pullKey_def pullNo_def pullKeySeparator_def Sprint_d_def digits.simps)

text \<open>
  C6. A pull request whose hostname or repository name contains \<open>::\<close> has no key:
  each of the four pull-status operations returns the error of \<open>pullKey\<close> and the
  handle it was given, with no transaction begun on it. Without the separator the key is
  \<open>hostname::repo::number\<close>.
\<close>

theorem pullKey_separator:
  "(strings_Contains (Hostname (VCSHost (BaseRepo pull))) pullKeySeparator \<or>
    strings_Contains (FullName (BaseRepo pull)) pullKeySeparator \<longrightarrow>
    (\<exists>format.
       pullKey pull =
         Inl (Errorf format [Hostname (VCSHost (BaseRepo pull)), pullKeySeparator]) \<and>
       UpdatePullWithResults env b pull newResults =
         (b, Inl (Errorf format [Hostname (VCSHost (BaseRepo pull)), pullKeySeparator])) \<and>
       GetPullStatus b pull =
         (b, Inl (Errorf format [Hostname (VCSHost (BaseRepo pull)), pullKeySeparator])) \<and>
       DeletePullStatus b pull =
         (b, Some (Errorf format [Hostname (VCSHost (BaseRepo pull)), pullKeySeparator])) \<and>
       DeleteProjectStatus env b pull workspace repoRelDir =
         (b, Some (Errorf format [Hostname (VCSHost (BaseRepo pull)), pullKeySeparator])))) \<and>
   (\<not> strings_Contains (Hostname (VCSHost (BaseRepo pull))) pullKeySeparator \<and>
    \<not> strings_Contains (FullName (BaseRepo pull)) pullKeySeparator \<longrightarrow>
    pullKey pull =
      Inr (Hostname (VCSHost (BaseRepo pull)) @ ''::'' @ FullName (BaseRepo pull) @ ''::'' @
           Sprint_d (Num pull)))"
proof (intro conjI impI)
  assume bad: "strings_Contains (Hostname (VCSHost (BaseRepo pull))) pullKeySeparator \<or>
               strings_Contains (FullName (BaseRepo pull)) pullKeySeparator"
  from pullKey_invalid [OF bad] obtain format where
    k: "pullKey pull = Inl (Errorf format [Hostname (VCSHost (BaseRepo pull)), pullKeySeparator])"
    by blast
  have "UpdatePullWithResults env b pull newResults =
          (b, Inl (Errorf format [Hostname (VCSHost (BaseRepo pull)), pullKeySeparator]))"
    and "GetPullStatus b pull =
          (b, Inl (Errorf format [Hostname (VCSHost (BaseRepo pull)), pullKeySeparator]))"
    and "DeletePullStatus b pull =
          (b, Some (Errorf format [Hostname (VCSHost (BaseRepo pull)), pullKeySeparator]))"
    and "DeleteProjectStatus env b pull workspace repoRelDir =
          (b, Some (Errorf format [Hostname (VCSHost (BaseRepo pull)), pullKeySeparator]))"
    by (simp_all add: k UpdatePullWithResults_def GetPullStatus_def DeletePullStatus_def
          DeleteProjectStatus_def)
  with k show "\<exists>format.
       pullKey pull =
         Inl (Errorf format [Hostname (VCSHost (BaseRepo pull)), pullKeySeparator]) \<and>
       UpdatePullWithResults env b pull newResults =
         (b, Inl (Errorf format [Hostname (VCSHost (BaseRepo pull)), pullKeySeparator])) \<and>
       GetPullStatus b pull =
         (b, Inl (Errorf format [Hostname (VCSHost (BaseRepo pull)), pullKeySeparator])) \<and>
       DeletePullStatus b pull =
         (b, Some (Errorf format [Hostname (VCSHost (BaseRepo pull)), pullKeySeparator])) \<and>
       DeleteProjectStatus env b pull workspace repoRelDir =
         (b, Some (Errorf format [Hostname (VCSHost (BaseRepo pull)), pullKeySeparator]))"
    by blast
next
  assume "\<not> strings_Contains (Hostname (VCSHost (BaseRepo pull))) pullKeySeparator \<and>
          \<not> strings_Contains (FullName (BaseRepo pull)) pullKeySeparator"
  then show "pullKey pull =
      Inr (Hostname (VCSHost (BaseRepo pull)) @ ''::'' @ FullName (BaseRepo pull) @ ''::'' @
           Sprint_d (Num pull))"
    by (simp add: pullKey_valid)
qed

theorem pullKey_separator_witness:
  "strings_Contains (FullName (BaseRepo (pullNo ''org::repo'' 42 ''c0ffee'' ''alice'')))
     pullKeySeparator \<and>
   UpdatePullWithResults machineUTC lockedDB (pullNo ''org::repo'' 42 ''c0ffee'' ''alice'')
       [resultOf ''default'' ''dir1'' ''p'' 1] =
     (lockedDB, Inl (Errorf ''repo name %q contains illegal string %q'' [''github.com'', ''::''])) \<and>
   GetPullStatus lockedDB (pullNo ''org::repo'' 42 ''c0ffee'' ''alice'') =
     (lockedDB, Inl (Errorf ''repo name %q contains illegal string %q'' [''github.com'', ''::''])) \<and>
   DeletePullStatus lockedDB (pullNo ''org::repo'' 42 ''c0ffee'' ''alice'') =
     (lockedDB, Some (Errorf ''repo name %q contains illegal string %q'' [''github.com'', ''::''])) \<and>
   DeleteProjectStatus machineUTC lockedDB (pullNo ''org::repo'' 42 ''c0ffee'' ''alice'') ''default'' ''dir1'' =
     (lockedDB, Some (Errorf ''repo name %q contains illegal string %q'' [''github.com'', ''::''])) \<and>
   \<not> strings_Contains (Hostname (VCSHost (BaseRepo (pullNo ''org/repo'' (- 7) ''c0ffee'' ''alice''))))
       pullKeySeparator \<and>
   \<not> strings_Contains (FullName (BaseRepo (pullNo ''org/repo'' (- 7) ''c0ffee'' ''alice'')))
       pullKeySeparator \<and>
   pullKey (pullNo ''org/repo'' (- 7) ''c0ffee'' ''alice'') = Inr ''github.com::org/repo::-7''"
proof -
  have bad: "strings_Contains (FullName (BaseRepo (pullNo ''org::repo'' 42 ''c0ffee'' ''alice'')))
               pullKeySeparator"
    by (simp add: pullNo_def pullKeySeparator_def)
  have e: "pullKey (pullNo ''org::repo'' 42 ''c0ffee'' ''alice'') =
             Inl (Errorf ''repo name %q contains illegal string %q'' [''github.com'', ''::''])"
    by (simp add: pullKey_def pullNo_def pullKeySeparator_def)
  have good: "\<not> strings_Contains
                  (Hostname (VCSHost (BaseRepo (pullNo ''org/repo'' (- 7) ''c0ffee'' ''alice''))))
                  pullKeySeparator"
    "\<not> strings_Contains (FullName (BaseRepo (pullNo ''org/repo'' (- 7) ''c0ffee'' ''alice'')))
         pullKeySeparator"
    by (simp_all add: pullNo_def pullKeySeparator_def)
  have d: "Sprint_d (- 7) = ''-7''"
    by (simp add: Sprint_d_def digits.simps)
  have 1: "UpdatePullWithResults machineUTC lockedDB (pullNo ''org::repo'' 42 ''c0ffee'' ''alice'')
             [resultOf ''default'' ''dir1'' ''p'' 1] =
           (lockedDB, Inl (Errorf ''repo name %q contains illegal string %q'' [''github.com'', ''::'']))"
    and 2: "GetPullStatus lockedDB (pullNo ''org::repo'' 42 ''c0ffee'' ''alice'') =
           (lockedDB, Inl (Errorf ''repo name %q contains illegal string %q'' [''github.com'', ''::'']))"
    and 3: "DeletePullStatus lockedDB (pullNo ''org::repo'' 42 ''c0ffee'' ''alice'') =
           (lockedDB, Some (Errorf ''repo name %q contains illegal string %q'' [''github.com'', ''::'']))"
    and 4: "DeleteProjectStatus machineUTC lockedDB (pullNo ''org::repo'' 42 ''c0ffee'' ''alice'')
              ''default'' ''dir1'' =
           (lockedDB, Some (Errorf ''repo name %q contains illegal string %q'' [''github.com'', ''::'']))"
    using bad
      pullKey_separator [where pull = "pullNo ''org::repo'' 42 ''c0ffee'' ''alice''"
        and b = lockedDB and env = machineUTC and newResults = "[resultOf ''default'' ''dir1'' ''p'' 1]"
        and workspace = "''default''" and repoRelDir = "''dir1''"]
    by (auto simp: e)
  have 5: "pullKey (pullNo ''org/repo'' (- 7) ''c0ffee'' ''alice'') = Inr ''github.com::org/repo::-7''"
  proof -
    have "pullKey (pullNo ''org/repo'' (- 7) ''c0ffee'' ''alice'') =
            Inr (Hostname (VCSHost (BaseRepo (pullNo ''org/repo'' (- 7) ''c0ffee'' ''alice''))) @
                 ''::'' @ FullName (BaseRepo (pullNo ''org/repo'' (- 7) ''c0ffee'' ''alice'')) @
                 ''::'' @ Sprint_d (Num (pullNo ''org/repo'' (- 7) ''c0ffee'' ''alice'')))"
      using good
        pullKey_separator [where pull = "pullNo ''org/repo'' (- 7) ''c0ffee'' ''alice''"]
      by blast
    then show ?thesis
      by (simp add: pullNo_def d)
  qed
  show ?thesis using bad good 1 2 3 4 5 by simp
qed


subsection \<open>Updating a pull status\<close>

lemma getPullFromBucket_None:
  "bucket_Get bucket key = None \<Longrightarrow> getPullFromBucket bucket key = Inr None"
  by (simp add: getPullFromBucket_def)

lemma getPullFromBucket_Some:
  "bucket_Get bucket key = Some (JSON p) \<Longrightarrow> getPullFromBucket bucket key = Inr (Some p)"
  by (simp add: getPullFromBucket_def json_Unmarshal_def)

lemma pullKey_not_empty: "pullKey pull = Inr key \<Longrightarrow> key \<noteq> []"
  by (auto simp: pullKey_def Let_def split: if_splits)

lemma writePullToBucket_accepted:
  "key \<noteq> [] \<Longrightarrow> length key \<le> MaxKeySize \<Longrightarrow> statusLen env status \<le> MaxValueSize \<Longrightarrow>
   writePullToBucket env bucket key status =
     (bucket_insert bucket key (JSON (json_PullStatus status)), None)"
  by (simp add: writePullToBucket_def json_Marshal_PullStatus_def bucket_Put_accepted)

lemma writePullToBucket_cases:
  "writePullToBucket env bucket key status =
     (bucket_insert bucket key (JSON (json_PullStatus status)), None) \<or>
   (\<exists>err. writePullToBucket env bucket key status = (bucket, Some err))"
  by (simp add: writePullToBucket_def json_Marshal_PullStatus_def bucket_Put_def)

lemma UpdatePullWithResults_fresh:
  "pullKey pull = Inr key \<Longrightarrow>
   length key \<le> MaxKeySize \<Longrightarrow>
   statusLen env \<lparr>Projects = map projectResultToProject newResults, PullStatus.Pull = pull\<rparr>
     \<le> MaxValueSize \<Longrightarrow>
   bucket_Get (pulls b) key = None \<or>
   (bucket_Get (pulls b) key = Some (JSON old) \<and>
    HeadCommit (PullStatus.Pull old) \<noteq> HeadCommit pull) \<Longrightarrow>
   UpdatePullWithResults env b pull newResults =
     (b\<lparr>pulls := bucket_insert (pulls b) key
           (JSON (json_PullStatus
              \<lparr>Projects = map projectResultToProject newResults, PullStatus.Pull = pull\<rparr>)),
        txCount := txCount b + 1\<rparr>,
      Inr \<lparr>Projects = map projectResultToProject newResults, PullStatus.Pull = pull\<rparr>)"
  by (auto simp: UpdatePullWithResults_def db_Update_def getPullFromBucket_None
        getPullFromBucket_Some writePullToBucket_accepted pullKey_not_empty Let_def)

lemma UpdatePullWithResults_merged:
  "pullKey pull = Inr key \<Longrightarrow>
   length key \<le> MaxKeySize \<Longrightarrow>
   statusLen env (old\<lparr>Projects := mergeResults (Projects old) newResults\<rparr>) \<le> MaxValueSize \<Longrightarrow>
   bucket_Get (pulls b) key = Some (JSON old) \<Longrightarrow>
   HeadCommit (PullStatus.Pull old) = HeadCommit pull \<Longrightarrow>
   UpdatePullWithResults env b pull newResults =
     (b\<lparr>pulls := bucket_insert (pulls b) key
           (JSON (json_PullStatus (old\<lparr>Projects := mergeResults (Projects old) newResults\<rparr>))),
        txCount := txCount b + 1\<rparr>,
      Inr (old\<lparr>Projects := mergeResults (Projects old) newResults\<rparr>))"
  by (auto simp: UpdatePullWithResults_def db_Update_def getPullFromBucket_Some
        writePullToBucket_accepted pullKey_not_empty Let_def)

text \<open>When BoltDB refuses the new status, the transaction is rolled back.\<close>

lemma UpdatePullWithResults_merged_or_refused:
  "pullKey pull = Inr key \<Longrightarrow>
   bucket_Get (pulls b) key = Some (JSON old) \<Longrightarrow>
   HeadCommit (PullStatus.Pull old) = HeadCommit pull \<Longrightarrow>
   UpdatePullWithResults env b pull newResults =
     (b\<lparr>pulls := bucket_insert (pulls b) key
           (JSON (json_PullStatus (old\<lparr>Projects := mergeResults (Projects old) newResults\<rparr>))),
        txCount := txCount b + 1\<rparr>,
      Inr (old\<lparr>Projects := mergeResults (Projects old) newResults\<rparr>)) \<or>
   (\<exists>err. UpdatePullWithResults env b pull newResults = (b\<lparr>txCount := txCount b + 1\<rparr>, Inl err))"
  using writePullToBucket_cases [of env "pulls b" key
      "old\<lparr>Projects := mergeResults (Projects old) newResults\<rparr>"]
  by (auto simp: UpdatePullWithResults_def db_Update_def getPullFromBucket_Some Let_def)

lemma projectResultToProject_resultOf [simp]:
  "projectResultToProject (resultOf w d n st) = statusOf w d n st"
  by (simp add: projectResultToProject_def resultOf_def statusOf_def)

lemma json_ProjectStatus_statusOf:
  "json_ProjectStatus (statusOf w d n st) = statusOf (json_string w) (json_string d) (json_string n) st"
  by (simp add: json_ProjectStatus_def statusOf_def)

lemma json_PullRequest_pullNo:
  "json_PullRequest (pullNo repo n commit author) =
     pullNo (json_string repo) n (json_string commit) (json_string author)"
  by (simp add: json_PullRequest_def json_Repo_def pullNo_def)

lemma machineUTC_takes_small_status:
  "length (Projects status) \<le> 1000 \<Longrightarrow> statusLen machineUTC status \<le> MaxValueSize"
  by (simp add: machineUTC_def MaxValueSize_def)

lemma example_key_length: "length ''github.com::org/repo::42'' \<le> MaxKeySize"
  by (simp add: MaxKeySize_def)

text \<open>
  C5, as the file has it. The pull request has a key that BoltDB takes (at most 32768
  bytes) and the new status a JSON text that BoltDB takes (at most 2147483646 bytes).
  When the key holds no status, or one whose pull request is at another head commit,
  \<open>UpdatePullWithResults\<close> returns the status made of the argument pull request and the
  conversions of the results, in their order, and the key then holds the JSON form of
  that status: nothing of the status held before remains. The projects stored are the
  conversions themselves, in their order, when the strings of the results are valid
  UTF-8.
\<close>

theorem UpdatePullWithResults_replace:
  "pullKey pull = Inr key \<Longrightarrow>
   length key \<le> MaxKeySize \<Longrightarrow>
   statusLen env \<lparr>Projects = map projectResultToProject newResults, PullStatus.Pull = pull\<rparr>
     \<le> MaxValueSize \<Longrightarrow>
   bucket_Get (pulls b) key = None \<or>
   (bucket_Get (pulls b) key = Some (JSON old) \<and>
    HeadCommit (PullStatus.Pull old) \<noteq> HeadCommit pull) \<Longrightarrow>
   snd (UpdatePullWithResults env b pull newResults) =
     Inr \<lparr>Projects = map projectResultToProject newResults, PullStatus.Pull = pull\<rparr> \<and>
   bucket_Get (pulls (fst (UpdatePullWithResults env b pull newResults))) key =
     Some (JSON \<lparr>Projects = map json_ProjectStatus (map projectResultToProject newResults),
                 PullStatus.Pull = json_PullRequest pull\<rparr>) \<and>
   ((\<forall>r \<in> set newResults.
       json_ProjectStatus (projectResultToProject r) = projectResultToProject r) \<longrightarrow>
    bucket_Get (pulls (fst (UpdatePullWithResults env b pull newResults))) key =
      Some (JSON \<lparr>Projects = map projectResultToProject newResults,
                  PullStatus.Pull = json_PullRequest pull\<rparr>))"
proof -
  assume k: "pullKey pull = Inr key" and len: "length key \<le> MaxKeySize"
    and val: "statusLen env
                \<lparr>Projects = map projectResultToProject newResults, PullStatus.Pull = pull\<rparr>
              \<le> MaxValueSize"
    and r: "bucket_Get (pulls b) key = None \<or>
            (bucket_Get (pulls b) key = Some (JSON old) \<and>
             HeadCommit (PullStatus.Pull old) \<noteq> HeadCommit pull)"
  have v: "map json_ProjectStatus (map projectResultToProject newResults) =
             map projectResultToProject newResults"
    if "\<forall>r \<in> set newResults.
          json_ProjectStatus (projectResultToProject r) = projectResultToProject r"
    using that by simp
  have w: "bucket_Get (pulls (fst (UpdatePullWithResults env b pull newResults))) key =
     Some (JSON \<lparr>Projects = map json_ProjectStatus (map projectResultToProject newResults),
                 PullStatus.Pull = json_PullRequest pull\<rparr>)"
    by (simp add: UpdatePullWithResults_fresh [OF k len val r] bucket_Get_insert
          json_PullStatus_def)
  have "snd (UpdatePullWithResults env b pull newResults) =
          Inr \<lparr>Projects = map projectResultToProject newResults, PullStatus.Pull = pull\<rparr>"
    by (simp add: UpdatePullWithResults_fresh [OF k len val r])
  then show ?thesis
    using w v by (simp only:) blast
qed

theorem UpdatePullWithResults_replace_witness:
  "pullKey (pullNo ''org/repo'' 42 ''beef'' ''bob'') = Inr ''github.com::org/repo::42'' \<and>
   length ''github.com::org/repo::42'' \<le> MaxKeySize \<and>
   bucket_Get (pulls emptyDB) ''github.com::org/repo::42'' = None \<and>
   json_ProjectStatus (projectResultToProject (resultOf ''b'' ''y'' ''q'' 3)) =
     projectResultToProject (resultOf ''b'' ''y'' ''q'' 3) \<and>
   json_ProjectStatus (projectResultToProject (resultOf ''a'' ''x'' ''p'' 2)) =
     projectResultToProject (resultOf ''a'' ''x'' ''p'' 2) \<and>
   snd (UpdatePullWithResults machineUTC emptyDB (pullNo ''org/repo'' 42 ''beef'' ''bob'')
          [resultOf ''b'' ''y'' ''q'' 3, resultOf ''a'' ''x'' ''p'' 2]) =
     Inr \<lparr>Projects = [statusOf ''b'' ''y'' ''q'' 3, statusOf ''a'' ''x'' ''p'' 2],
          PullStatus.Pull = pullNo ''org/repo'' 42 ''beef'' ''bob''\<rparr> \<and>
   bucket_Get
     (pulls (fst (UpdatePullWithResults machineUTC emptyDB (pullNo ''org/repo'' 42 ''beef'' ''bob'')
                    [resultOf ''b'' ''y'' ''q'' 3, resultOf ''a'' ''x'' ''p'' 2])))
     ''github.com::org/repo::42'' =
     Some (JSON \<lparr>Projects = [statusOf ''b'' ''y'' ''q'' 3, statusOf ''a'' ''x'' ''p'' 2],
                 PullStatus.Pull = pullNo ''org/repo'' 42 ''beef'' ''bob''\<rparr>) \<and>
   bucket_Get
     (pulls (storedDB ''github.com::org/repo::42''
        \<lparr>Projects = [statusOf ''a'' ''x'' ''p'' 1],
         PullStatus.Pull = pullNo ''org/repo'' 42 ''c0ffee'' ''alice''\<rparr>))
     ''github.com::org/repo::42'' =
     Some (JSON \<lparr>Projects = [statusOf ''a'' ''x'' ''p'' 1],
                 PullStatus.Pull = pullNo ''org/repo'' 42 ''c0ffee'' ''alice''\<rparr>) \<and>
   HeadCommit (pullNo ''org/repo'' 42 ''c0ffee'' ''alice'') \<noteq>
     HeadCommit (pullNo ''org/repo'' 42 ''beef'' ''bob'') \<and>
   snd (UpdatePullWithResults machineUTC
          (storedDB ''github.com::org/repo::42''
             \<lparr>Projects = [statusOf ''a'' ''x'' ''p'' 1],
              PullStatus.Pull = pullNo ''org/repo'' 42 ''c0ffee'' ''alice''\<rparr>)
          (pullNo ''org/repo'' 42 ''beef'' ''bob'') [resultOf ''b'' ''y'' ''q'' 3]) =
     Inr \<lparr>Projects = [statusOf ''b'' ''y'' ''q'' 3],
          PullStatus.Pull = pullNo ''org/repo'' 42 ''beef'' ''bob''\<rparr>"
proof -
  have k: "pullKey (pullNo ''org/repo'' 42 ''beef'' ''bob'') = Inr ''github.com::org/repo::42''"
    by simp
  have absent: "bucket_Get (pulls emptyDB) ''github.com::org/repo::42'' = None"
    by (simp add: emptyDB_def bucket_Get_def)
  have present: "bucket_Get
     (pulls (storedDB ''github.com::org/repo::42''
        \<lparr>Projects = [statusOf ''a'' ''x'' ''p'' 1],
         PullStatus.Pull = pullNo ''org/repo'' 42 ''c0ffee'' ''alice''\<rparr>))
     ''github.com::org/repo::42'' =
     Some (JSON \<lparr>Projects = [statusOf ''a'' ''x'' ''p'' 1],
                 PullStatus.Pull = pullNo ''org/repo'' 42 ''c0ffee'' ''alice''\<rparr>)"
    by (simp add: storedDB_def bucket_Get_def)
  have differs: "HeadCommit (pullNo ''org/repo'' 42 ''c0ffee'' ''alice'') \<noteq>
                 HeadCommit (pullNo ''org/repo'' 42 ''beef'' ''bob'')"
    by (simp add: pullNo_def)
  have valid: "json_ProjectStatus (projectResultToProject (resultOf ''b'' ''y'' ''q'' 3)) =
                 projectResultToProject (resultOf ''b'' ''y'' ''q'' 3)"
    "json_ProjectStatus (projectResultToProject (resultOf ''a'' ''x'' ''p'' 2)) =
       projectResultToProject (resultOf ''a'' ''x'' ''p'' 2)"
    by (simp_all add: json_ProjectStatus_statusOf)
  have fits: "statusLen machineUTC status \<le> MaxValueSize" if "length (Projects status) \<le> 1000"
    for status using that by (rule machineUTC_takes_small_status)
  note 1 = UpdatePullWithResults_replace [OF k example_key_length _ disjI1 [OF absent],
      where env = machineUTC
        and newResults = "[resultOf ''b'' ''y'' ''q'' 3, resultOf ''a'' ''x'' ''p'' 2]"]
  note 2 = UpdatePullWithResults_replace [OF k example_key_length _
      disjI2 [OF conjI [OF present]], where env = machineUTC
        and newResults = "[resultOf ''b'' ''y'' ''q'' 3]"]
  have a: "snd (UpdatePullWithResults machineUTC emptyDB (pullNo ''org/repo'' 42 ''beef'' ''bob'')
          [resultOf ''b'' ''y'' ''q'' 3, resultOf ''a'' ''x'' ''p'' 2]) =
     Inr \<lparr>Projects = [statusOf ''b'' ''y'' ''q'' 3, statusOf ''a'' ''x'' ''p'' 2],
          PullStatus.Pull = pullNo ''org/repo'' 42 ''beef'' ''bob''\<rparr>"
    and b: "bucket_Get
     (pulls (fst (UpdatePullWithResults machineUTC emptyDB (pullNo ''org/repo'' 42 ''beef'' ''bob'')
                    [resultOf ''b'' ''y'' ''q'' 3, resultOf ''a'' ''x'' ''p'' 2])))
     ''github.com::org/repo::42'' =
     Some (JSON \<lparr>Projects = [statusOf ''b'' ''y'' ''q'' 3, statusOf ''a'' ''x'' ''p'' 2],
                 PullStatus.Pull = pullNo ''org/repo'' 42 ''beef'' ''bob''\<rparr>)"
    using 1 [OF fits] by (simp_all add: json_ProjectStatus_statusOf json_PullRequest_pullNo)
  have c: "snd (UpdatePullWithResults machineUTC
          (storedDB ''github.com::org/repo::42''
             \<lparr>Projects = [statusOf ''a'' ''x'' ''p'' 1],
              PullStatus.Pull = pullNo ''org/repo'' 42 ''c0ffee'' ''alice''\<rparr>)
          (pullNo ''org/repo'' 42 ''beef'' ''bob'') [resultOf ''b'' ''y'' ''q'' 3]) =
     Inr \<lparr>Projects = [statusOf ''b'' ''y'' ''q'' 3],
          PullStatus.Pull = pullNo ''org/repo'' 42 ''beef'' ''bob''\<rparr>"
    using 2 [OF fits] differs by simp
  show ?thesis
    using k example_key_length absent present differs valid a b c by simp
qed

text \<open>
  C5 as stated fails for a result whose workspace is the byte \<open>FF\<close>: the status
  returned has the conversion of the result, the status stored has U+FFFD for the
  workspace.
\<close>

theorem UpdatePullWithResults_replace_counterexample:
  "bucket_Get (pulls emptyDB) ''github.com::org/repo::42'' = None \<and>
   snd (UpdatePullWithResults machineUTC emptyDB (pullNo ''org/repo'' 42 ''beef'' ''bob'')
          [resultOf [CHR 0xFF] ''dir1'' ''p'' 1]) =
     Inr \<lparr>Projects = [projectResultToProject (resultOf [CHR 0xFF] ''dir1'' ''p'' 1)],
          PullStatus.Pull = pullNo ''org/repo'' 42 ''beef'' ''bob''\<rparr> \<and>
   bucket_Get
     (pulls (fst (UpdatePullWithResults machineUTC emptyDB (pullNo ''org/repo'' 42 ''beef'' ''bob'')
                    [resultOf [CHR 0xFF] ''dir1'' ''p'' 1])))
     ''github.com::org/repo::42'' =
     Some (JSON \<lparr>Projects = [statusOf [CHR 0xEF, CHR 0xBF, CHR 0xBD] ''dir1'' ''p'' 1],
                 PullStatus.Pull = pullNo ''org/repo'' 42 ''beef'' ''bob''\<rparr>) \<and>
   [statusOf [CHR 0xEF, CHR 0xBF, CHR 0xBD] ''dir1'' ''p'' 1] \<noteq>
     map projectResultToProject [resultOf [CHR 0xFF] ''dir1'' ''p'' 1]"
proof -
  have k: "pullKey (pullNo ''org/repo'' 42 ''beef'' ''bob'') = Inr ''github.com::org/repo::42''"
    by simp
  have absent: "bucket_Get (pulls emptyDB) ''github.com::org/repo::42'' = None"
    by (simp add: emptyDB_def bucket_Get_def)
  have fits: "statusLen machineUTC
                \<lparr>Projects = map projectResultToProject [resultOf [CHR 0xFF] ''dir1'' ''p'' 1],
                 PullStatus.Pull = pullNo ''org/repo'' 42 ''beef'' ''bob''\<rparr> \<le> MaxValueSize"
    by (simp add: machineUTC_takes_small_status)
  have ne: "[statusOf [CHR 0xEF, CHR 0xBF, CHR 0xBD] ''dir1'' ''p'' 1] \<noteq>
              map projectResultToProject [resultOf [CHR 0xFF] ''dir1'' ''p'' 1]"
    by (simp add: statusOf_def)
  show ?thesis
    using absent ne
      UpdatePullWithResults_fresh [OF k example_key_length fits disjI1 [OF absent]]
    by (simp add: bucket_Get_insert json_PullStatus_def json_ProjectStatus_statusOf
          json_PullRequest_pullNo json_string_FF RuneError_def)
qed


text \<open>
  A status read from a bucket has been through JSON, so its strings are valid UTF-8:
  encoding it again gives it back. What \<open>UpdatePullWithResults\<close> and
  \<open>DeleteProjectStatus\<close> write is of that kind.
\<close>

lemma written_status_decoded:
  "json_PullStatus (json_PullStatus status) = json_PullStatus status"
  "json_PullRequest (PullStatus.Pull (json_PullStatus status)) =
     PullStatus.Pull (json_PullStatus status)"
  by (simp_all add: json_PullStatus_idem) (simp add: json_PullStatus_def json_PullRequest_idem)

text \<open>
  C10. On the merge path (the key holds a status whose pull request is at the head
  commit of the argument) the pull request of the status at the key stays the one that
  was stored, and so is the pull request of the status returned: whatever else differs
  in the argument is dropped. The call returns a status, and the key holds its JSON
  form, when BoltDB takes the key and the merged status.
\<close>

theorem UpdatePullWithResults_merge_keeps_pull:
  "pullKey pull = Inr key \<Longrightarrow>
   bucket_Get (pulls b) key = Some (JSON old) \<Longrightarrow>
   HeadCommit (PullStatus.Pull old) = HeadCommit pull \<Longrightarrow>
   json_PullRequest (PullStatus.Pull old) = PullStatus.Pull old \<Longrightarrow>
   (\<exists>stored.
      bucket_Get (pulls (fst (UpdatePullWithResults env b pull newResults))) key =
        Some (JSON stored) \<and>
      PullStatus.Pull stored = PullStatus.Pull old) \<and>
   (\<forall>newStatus.
      snd (UpdatePullWithResults env b pull newResults) = Inr newStatus \<longrightarrow>
      PullStatus.Pull newStatus = PullStatus.Pull old) \<and>
   (length key \<le> MaxKeySize \<and>
    statusLen env (old\<lparr>Projects := mergeResults (Projects old) newResults\<rparr>) \<le> MaxValueSize \<longrightarrow>
    (\<exists>newStatus.
       snd (UpdatePullWithResults env b pull newResults) = Inr newStatus \<and>
       bucket_Get (pulls (fst (UpdatePullWithResults env b pull newResults))) key =
         Some (JSON (json_PullStatus newStatus)) \<and>
       PullStatus.Pull newStatus = PullStatus.Pull old \<and>
       PullStatus.Pull (json_PullStatus newStatus) = PullStatus.Pull old))"
proof -
  assume k: "pullKey pull = Inr key"
    and stored: "bucket_Get (pulls b) key = Some (JSON old)"
    and same: "HeadCommit (PullStatus.Pull old) = HeadCommit pull"
    and decoded: "json_PullRequest (PullStatus.Pull old) = PullStatus.Pull old"
  let ?merged = "old\<lparr>Projects := mergeResults (Projects old) newResults\<rparr>"
  have p: "PullStatus.Pull (json_PullStatus ?merged) = PullStatus.Pull old"
    using decoded by (simp add: json_PullStatus_def)
  have 1: "\<exists>stored.
      bucket_Get (pulls (fst (UpdatePullWithResults env b pull newResults))) key =
        Some (JSON stored) \<and>
      PullStatus.Pull stored = PullStatus.Pull old"
    and 2: "\<forall>newStatus.
      snd (UpdatePullWithResults env b pull newResults) = Inr newStatus \<longrightarrow>
      PullStatus.Pull newStatus = PullStatus.Pull old"
    using UpdatePullWithResults_merged_or_refused [OF k stored same, of env newResults] stored p
    by (auto simp: bucket_Get_insert)
  have 3: "\<exists>newStatus.
       snd (UpdatePullWithResults env b pull newResults) = Inr newStatus \<and>
       bucket_Get (pulls (fst (UpdatePullWithResults env b pull newResults))) key =
         Some (JSON (json_PullStatus newStatus)) \<and>
       PullStatus.Pull newStatus = PullStatus.Pull old \<and>
       PullStatus.Pull (json_PullStatus newStatus) = PullStatus.Pull old"
    if "length key \<le> MaxKeySize" "statusLen env ?merged \<le> MaxValueSize"
    using UpdatePullWithResults_merged [OF k that stored same] p
    by (simp add: bucket_Get_insert)
  show ?thesis
    using 1 2 3 by blast
qed

theorem UpdatePullWithResults_merge_keeps_pull_witness:
  "pullKey (pullNo ''org/repo'' 42 ''c0ffee'' ''bob'') = Inr ''github.com::org/repo::42'' \<and>
   HeadCommit (pullNo ''org/repo'' 42 ''c0ffee'' ''alice'') =
     HeadCommit (pullNo ''org/repo'' 42 ''c0ffee'' ''bob'') \<and>
   json_PullRequest (pullNo ''org/repo'' 42 ''c0ffee'' ''alice'') =
     pullNo ''org/repo'' 42 ''c0ffee'' ''alice'' \<and>
   length ''github.com::org/repo::42'' \<le> MaxKeySize \<and>
   pullNo ''org/repo'' 42 ''c0ffee'' ''alice'' \<noteq> pullNo ''org/repo'' 42 ''c0ffee'' ''bob'' \<and>
   (\<exists>newStatus.
      snd (UpdatePullWithResults machineUTC
             (storedDB ''github.com::org/repo::42''
                \<lparr>Projects = [statusOf ''a'' ''x'' ''p'' 1],
                 PullStatus.Pull = pullNo ''org/repo'' 42 ''c0ffee'' ''alice''\<rparr>)
             (pullNo ''org/repo'' 42 ''c0ffee'' ''bob'') [resultOf ''a'' ''x'' ''p'' 2]) =
        Inr newStatus \<and>
      PullStatus.Pull newStatus = pullNo ''org/repo'' 42 ''c0ffee'' ''alice'') \<and>
   (\<exists>stored.
      bucket_Get
        (pulls (fst (UpdatePullWithResults machineUTC
             (storedDB ''github.com::org/repo::42''
                \<lparr>Projects = [statusOf ''a'' ''x'' ''p'' 1],
                 PullStatus.Pull = pullNo ''org/repo'' 42 ''c0ffee'' ''alice''\<rparr>)
             (pullNo ''org/repo'' 42 ''c0ffee'' ''bob'') [resultOf ''a'' ''x'' ''p'' 2])))
        ''github.com::org/repo::42'' = Some (JSON stored) \<and>
      PullStatus.Pull stored = pullNo ''org/repo'' 42 ''c0ffee'' ''alice'')"
proof -
  let ?old = "\<lparr>Projects = [statusOf ''a'' ''x'' ''p'' 1],
               PullStatus.Pull = pullNo ''org/repo'' 42 ''c0ffee'' ''alice''\<rparr>"
  have k: "pullKey (pullNo ''org/repo'' 42 ''c0ffee'' ''bob'') = Inr ''github.com::org/repo::42''"
    by simp
  have present: "bucket_Get (pulls (storedDB ''github.com::org/repo::42'' ?old))
                   ''github.com::org/repo::42'' = Some (JSON ?old)"
    by (simp add: storedDB_def bucket_Get_def)
  have same: "HeadCommit (PullStatus.Pull ?old) =
              HeadCommit (pullNo ''org/repo'' 42 ''c0ffee'' ''bob'')"
    and other: "pullNo ''org/repo'' 42 ''c0ffee'' ''alice'' \<noteq>
                pullNo ''org/repo'' 42 ''c0ffee'' ''bob''"
    by (simp_all add: pullNo_def)
  have decoded: "json_PullRequest (PullStatus.Pull ?old) = PullStatus.Pull ?old"
    by (simp add: json_PullRequest_pullNo)
  have fits: "statusLen machineUTC
                (?old\<lparr>Projects := mergeResults (Projects ?old) [resultOf ''a'' ''x'' ''p'' 2]\<rparr>)
              \<le> MaxValueSize"
    by (simp add: machineUTC_def MaxValueSize_def statusOf_def resultOf_def)
  note t = UpdatePullWithResults_merge_keeps_pull [OF k present same decoded,
      where env = machineUTC and newResults = "[resultOf ''a'' ''x'' ''p'' 2]"]
  have 1: "\<exists>newStatus.
      snd (UpdatePullWithResults machineUTC (storedDB ''github.com::org/repo::42'' ?old)
             (pullNo ''org/repo'' 42 ''c0ffee'' ''bob'') [resultOf ''a'' ''x'' ''p'' 2]) =
        Inr newStatus \<and>
      PullStatus.Pull newStatus = pullNo ''org/repo'' 42 ''c0ffee'' ''alice''"
    using t example_key_length fits by auto
  have 2: "\<exists>stored.
      bucket_Get
        (pulls (fst (UpdatePullWithResults machineUTC (storedDB ''github.com::org/repo::42'' ?old)
             (pullNo ''org/repo'' 42 ''c0ffee'' ''bob'') [resultOf ''a'' ''x'' ''p'' 2])))
        ''github.com::org/repo::42'' = Some (JSON stored) \<and>
      PullStatus.Pull stored = pullNo ''org/repo'' 42 ''c0ffee'' ''alice''"
    using t by auto
  show ?thesis
    using k same decoded example_key_length other 1 2 by simp
qed




lemma tuples_of_examples [simp]:
  "projectTuple (statusOf w d n st) = (w, d, n)"
  "resultTuple (resultOf w d n st) = (w, d, n)"
  "PlanStatus (resultOf w d n st) = st"
  "(statusOf w d n st)\<lparr>Status := st'\<rparr> = statusOf w d n st'"
  by (simp_all add: projectTuple_def resultTuple_def statusOf_def resultOf_def)





subsection \<open>Deleting the statuses of a project\<close>

lemma DeleteProjectStatus_present:
  "pullKey pull = Inr key \<Longrightarrow>
   length key \<le> MaxKeySize \<Longrightarrow>
   statusLen env
     (currStatus\<lparr>Projects :=
        filter (\<lambda>p. \<not> (ProjectStatus.Workspace p = workspace \<and>
                        ProjectStatus.RepoRelDir p = repoRelDir))
          (Projects currStatus)\<rparr>) \<le> MaxValueSize \<Longrightarrow>
   bucket_Get (pulls b) key = Some (JSON currStatus) \<Longrightarrow>
   DeleteProjectStatus env b pull workspace repoRelDir =
     (b\<lparr>pulls := bucket_insert (pulls b) key
           (JSON (json_PullStatus (currStatus\<lparr>Projects :=
              filter (\<lambda>p. \<not> (ProjectStatus.Workspace p = workspace \<and>
                              ProjectStatus.RepoRelDir p = repoRelDir))
                (Projects currStatus)\<rparr>))),
        txCount := txCount b + 1\<rparr>,
      None)"
  by (auto simp: DeleteProjectStatus_def db_Update_def getPullFromBucket_Some
        writePullToBucket_accepted pullKey_not_empty Let_def)

text \<open>
  Leaving entries out of a status that is in decoded form gives a status in decoded
  form: what is written back is the filtered list itself.
\<close>

lemma json_PullStatus_filter:
  "json_PullStatus s = s \<Longrightarrow>
   json_PullStatus (s\<lparr>Projects := filter P (Projects s)\<rparr>) =
     \<lparr>Projects = filter P (Projects s), PullStatus.Pull = PullStatus.Pull s\<rparr>"
proof -
  assume d: "json_PullStatus s = s"
  have p: "map json_ProjectStatus (Projects s) = Projects s"
    and q: "json_PullRequest (PullStatus.Pull s) = PullStatus.Pull s"
    using d by (cases s, simp add: json_PullStatus_def)+
  have "map f (filter P xs) = filter P xs" if "map f xs = xs" for f and xs :: "ProjectStatus list"
    using that by (induction xs) auto
  then have "map json_ProjectStatus (filter P (Projects s)) = filter P (Projects s)"
    using p by blast
  then show ?thesis
    using q by (simp add: json_PullStatus_def)
qed

lemma DeleteProjectStatus_absent:
  "pullKey pull = Inr key \<Longrightarrow>
   bucket_Get (pulls b) key = None \<Longrightarrow>
   DeleteProjectStatus env b pull workspace repoRelDir = (b\<lparr>txCount := txCount b + 1\<rparr>, None)"
  by (auto simp: DeleteProjectStatus_def db_Update_def getPullFromBucket_None)

text \<open>
  C7. \<open>DeleteProjectStatus\<close> returns no error and leaves at the key of the pull
  request the status it held without the entries whose workspace and relative directory
  both equal the arguments, whatever their project name; the other entries stay, in
  their order, and so does the pull request of the status. When the key holds nothing,
  it returns no error and the bucket is as it was. The stored status is one that
  BoltDB holds: under a key within \<open>MaxKeySize\<close>, in the form the decoder gives
  (\<open>json_PullStatus\<close> leaves it as it is, as it does everything that was written
  by \<open>writePullToBucket\<close>), and its JSON text without the entries removed is within
  \<open>MaxValueSize\<close>, as the longer text that is stored was.
\<close>

theorem DeleteProjectStatus_filters:
  "pullKey pull = Inr key \<Longrightarrow>
   (bucket_Get (pulls b) key = Some (JSON currStatus) \<and>
    length key \<le> MaxKeySize \<and>
    json_PullStatus currStatus = currStatus \<and>
    statusLen env
      (currStatus\<lparr>Projects :=
         filter (\<lambda>p. \<not> (ProjectStatus.Workspace p = workspace \<and>
                         ProjectStatus.RepoRelDir p = repoRelDir))
           (Projects currStatus)\<rparr>) \<le> MaxValueSize \<longrightarrow>
    snd (DeleteProjectStatus env b pull workspace repoRelDir) = None \<and>
    bucket_Get (pulls (fst (DeleteProjectStatus env b pull workspace repoRelDir))) k =
      (if k = key then
         Some (JSON \<lparr>Projects =
                       filter (\<lambda>p. \<not> (ProjectStatus.Workspace p = workspace \<and>
                                       ProjectStatus.RepoRelDir p = repoRelDir))
                         (Projects currStatus),
                     PullStatus.Pull = PullStatus.Pull currStatus\<rparr>)
       else bucket_Get (pulls b) k)) \<and>
   (bucket_Get (pulls b) key = None \<longrightarrow>
    snd (DeleteProjectStatus env b pull workspace repoRelDir) = None \<and>
    pulls (fst (DeleteProjectStatus env b pull workspace repoRelDir)) = pulls b \<and>
    runLocks (fst (DeleteProjectStatus env b pull workspace repoRelDir)) = runLocks b)"
proof -
  assume k: "pullKey pull = Inr key"
  let ?P = "\<lambda>p. \<not> (ProjectStatus.Workspace p = workspace \<and>
                   ProjectStatus.RepoRelDir p = repoRelDir)"
  have present: "snd (DeleteProjectStatus env b pull workspace repoRelDir) = None \<and>
      bucket_Get (pulls (fst (DeleteProjectStatus env b pull workspace repoRelDir))) k =
        (if k = key then
           Some (JSON \<lparr>Projects = filter ?P (Projects currStatus),
                       PullStatus.Pull = PullStatus.Pull currStatus\<rparr>)
         else bucket_Get (pulls b) k)"
    if "bucket_Get (pulls b) key = Some (JSON currStatus)" "length key \<le> MaxKeySize"
      "json_PullStatus currStatus = currStatus"
      "statusLen env (currStatus\<lparr>Projects := filter ?P (Projects currStatus)\<rparr>) \<le> MaxValueSize"
    using DeleteProjectStatus_present [OF k that(2) that(4) that(1)]
      json_PullStatus_filter [OF that(3), of ?P]
    by (simp add: bucket_Get_insert)
  have absent: "snd (DeleteProjectStatus env b pull workspace repoRelDir) = None \<and>
      pulls (fst (DeleteProjectStatus env b pull workspace repoRelDir)) = pulls b \<and>
      runLocks (fst (DeleteProjectStatus env b pull workspace repoRelDir)) = runLocks b"
    if "bucket_Get (pulls b) key = None"
    using DeleteProjectStatus_absent [OF k that] by simp
  show ?thesis
    using present absent by blast
qed

theorem DeleteProjectStatus_filters_witness:
  "pullKey (pullNo ''org/repo'' 42 ''c0ffee'' ''alice'') = Inr ''github.com::org/repo::42'' \<and>
   bucket_Get
     (pulls (storedDB ''github.com::org/repo::42''
        \<lparr>Projects = [statusOf ''default'' ''dir1'' ''p1'' 1, statusOf ''default'' ''dir2'' ''p2'' 1,
                     statusOf ''default'' ''dir1'' ''p3'' 2, statusOf ''staging'' ''dir1'' ''p1'' 3],
         PullStatus.Pull = pullNo ''org/repo'' 42 ''c0ffee'' ''alice''\<rparr>))
     ''github.com::org/repo::42'' =
     Some (JSON \<lparr>Projects = [statusOf ''default'' ''dir1'' ''p1'' 1, statusOf ''default'' ''dir2'' ''p2'' 1,
                     statusOf ''default'' ''dir1'' ''p3'' 2, statusOf ''staging'' ''dir1'' ''p1'' 3],
                 PullStatus.Pull = pullNo ''org/repo'' 42 ''c0ffee'' ''alice''\<rparr>) \<and>
   bucket_Get
     (pulls (fst (DeleteProjectStatus machineUTC
        (storedDB ''github.com::org/repo::42''
           \<lparr>Projects = [statusOf ''default'' ''dir1'' ''p1'' 1, statusOf ''default'' ''dir2'' ''p2'' 1,
                        statusOf ''default'' ''dir1'' ''p3'' 2, statusOf ''staging'' ''dir1'' ''p1'' 3],
            PullStatus.Pull = pullNo ''org/repo'' 42 ''c0ffee'' ''alice''\<rparr>)
        (pullNo ''org/repo'' 42 ''c0ffee'' ''alice'') ''default'' ''dir1'')))
     ''github.com::org/repo::42'' =
     Some (JSON \<lparr>Projects = [statusOf ''default'' ''dir2'' ''p2'' 1, statusOf ''staging'' ''dir1'' ''p1'' 3],
                 PullStatus.Pull = pullNo ''org/repo'' 42 ''c0ffee'' ''alice''\<rparr>) \<and>
   bucket_Get (pulls emptyDB) ''github.com::org/repo::42'' = None \<and>
   snd (DeleteProjectStatus machineUTC emptyDB (pullNo ''org/repo'' 42 ''c0ffee'' ''alice'') ''default'' ''dir1'') =
     None \<and>
   pulls (fst (DeleteProjectStatus machineUTC emptyDB (pullNo ''org/repo'' 42 ''c0ffee'' ''alice'')
                 ''default'' ''dir1'')) = pulls emptyDB"
proof -
  have present: "bucket_Get
     (pulls (storedDB ''github.com::org/repo::42''
        \<lparr>Projects = [statusOf ''default'' ''dir1'' ''p1'' 1, statusOf ''default'' ''dir2'' ''p2'' 1,
                     statusOf ''default'' ''dir1'' ''p3'' 2, statusOf ''staging'' ''dir1'' ''p1'' 3],
         PullStatus.Pull = pullNo ''org/repo'' 42 ''c0ffee'' ''alice''\<rparr>))
     ''github.com::org/repo::42'' =
     Some (JSON \<lparr>Projects = [statusOf ''default'' ''dir1'' ''p1'' 1, statusOf ''default'' ''dir2'' ''p2'' 1,
                     statusOf ''default'' ''dir1'' ''p3'' 2, statusOf ''staging'' ''dir1'' ''p1'' 3],
                 PullStatus.Pull = pullNo ''org/repo'' 42 ''c0ffee'' ''alice''\<rparr>)"
    by (simp add: storedDB_def bucket_Get_def)
  have absent: "bucket_Get (pulls emptyDB) ''github.com::org/repo::42'' = None"
    by (simp add: emptyDB_def bucket_Get_def)
  have k: "pullKey (pullNo ''org/repo'' 42 ''c0ffee'' ''alice'') = Inr ''github.com::org/repo::42''"
    by simp
  note 1 = DeleteProjectStatus_filters [OF k, where env = machineUTC and
        b = "storedDB ''github.com::org/repo::42''
           \<lparr>Projects = [statusOf ''default'' ''dir1'' ''p1'' 1, statusOf ''default'' ''dir2'' ''p2'' 1,
                        statusOf ''default'' ''dir1'' ''p3'' 2, statusOf ''staging'' ''dir1'' ''p1'' 3],
            PullStatus.Pull = pullNo ''org/repo'' 42 ''c0ffee'' ''alice''\<rparr>"
        and currStatus = "\<lparr>Projects = [statusOf ''default'' ''dir1'' ''p1'' 1,
                        statusOf ''default'' ''dir2'' ''p2'' 1,
                        statusOf ''default'' ''dir1'' ''p3'' 2, statusOf ''staging'' ''dir1'' ''p1'' 3],
            PullStatus.Pull = pullNo ''org/repo'' 42 ''c0ffee'' ''alice''\<rparr>"
        and workspace = "''default''" and repoRelDir = "''dir1''"
        and k = "''github.com::org/repo::42''"]
  note 2 = DeleteProjectStatus_filters [OF k, where env = machineUTC and b = emptyDB
        and workspace = "''default''" and repoRelDir = "''dir1''"]
  have 3: "bucket_Get
     (pulls (fst (DeleteProjectStatus machineUTC
        (storedDB ''github.com::org/repo::42''
           \<lparr>Projects = [statusOf ''default'' ''dir1'' ''p1'' 1, statusOf ''default'' ''dir2'' ''p2'' 1,
                        statusOf ''default'' ''dir1'' ''p3'' 2, statusOf ''staging'' ''dir1'' ''p1'' 3],
            PullStatus.Pull = pullNo ''org/repo'' 42 ''c0ffee'' ''alice''\<rparr>)
        (pullNo ''org/repo'' 42 ''c0ffee'' ''alice'') ''default'' ''dir1'')))
     ''github.com::org/repo::42'' =
     Some (JSON \<lparr>Projects = [statusOf ''default'' ''dir2'' ''p2'' 1, statusOf ''staging'' ''dir1'' ''p1'' 3],
                 PullStatus.Pull = pullNo ''org/repo'' 42 ''c0ffee'' ''alice''\<rparr>)"
    using 1 present example_key_length
    by (simp add: json_PullStatus_def json_ProjectStatus_statusOf json_PullRequest_pullNo
          machineUTC_takes_small_status)
       (simp add: statusOf_def)
  have 4: "snd (DeleteProjectStatus machineUTC emptyDB (pullNo ''org/repo'' 42 ''c0ffee'' ''alice'')
                  ''default'' ''dir1'') = None"
    "pulls (fst (DeleteProjectStatus machineUTC emptyDB (pullNo ''org/repo'' 42 ''c0ffee'' ''alice'')
                 ''default'' ''dir1'')) = pulls emptyDB"
    using 2 absent by simp_all
  show ?thesis
    using k present absent 3 4 by simp
qed


subsection \<open>Distinct projects within a pull status\<close>

lemma projectTuple_projectResultToProject [simp]:
  "projectTuple (projectResultToProject r) = resultTuple r"
  by (simp add: projectTuple_def resultTuple_def projectResultToProject_def)

lemma updateExisting_tuples:
  "map projectTuple (fst (updateExisting ps r)) = map projectTuple ps"
  by (induction ps) (auto simp: projectTuple_def split: prod.splits)

lemma updateExisting_flag:
  "snd (updateExisting ps r) \<longleftrightarrow> resultTuple r \<in> set (map projectTuple ps)"
  by (induction ps) (auto simp: projectTuple_def resultTuple_def split: prod.splits)

lemma mergeResults_distinct:
  "distinct (map projectTuple ps) \<Longrightarrow> distinct (map projectTuple (mergeResults ps rs))"
proof (induction rs arbitrary: ps)
  case Nil
  then show ?case by simp
next
  case (Cons r rs)
  obtain ps' u where e: "updateExisting ps r = (ps', u)"
    by fastforce
  have t: "map projectTuple ps' = map projectTuple ps"
    using updateExisting_tuples [of ps r] e by simp
  have f: "u \<longleftrightarrow> resultTuple r \<in> set (map projectTuple ps)"
    using updateExisting_flag [of ps r] e by simp
  show ?case
  proof (cases u)
    case True
    have "distinct (map projectTuple ps')"
      using Cons.prems t by simp
    then show ?thesis
      using Cons.IH [of ps'] e True by simp
  next
    case False
    have "distinct (map projectTuple (ps' @ [projectResultToProject r]))"
      using Cons.prems t f False by simp
    then show ?thesis
      using Cons.IH [of "ps' @ [projectResultToProject r]"] e False by simp
  qed
qed

text \<open>
  The JSON text of a status has the identity of each entry with its invalid bytes
  replaced, so entries that share an identity still do in the text, and entries in
  valid UTF-8 are written as they are.
\<close>

lemma projectTuple_json_ProjectStatus:
  "projectTuple (json_ProjectStatus u) =
     (json_string (fst (projectTuple u)), json_string (fst (snd (projectTuple u))),
      json_string (snd (snd (projectTuple u))))"
  by (simp add: projectTuple_def json_ProjectStatus_def)

lemma written_distinct_imp_distinct:
  "distinct (map projectTuple (Projects (json_PullStatus s))) \<Longrightarrow>
   distinct (map projectTuple (Projects s))"
proof -
  let ?c = "\<lambda>t :: string \<times> string \<times> string.
              (json_string (fst t), json_string (fst (snd t)), json_string (snd (snd t)))"
  assume "distinct (map projectTuple (Projects (json_PullStatus s)))"
  then have "distinct (map ?c (map projectTuple (Projects s)))"
    by (simp add: json_PullStatus_def comp_def projectTuple_json_ProjectStatus)
  then show ?thesis
    using distinct_map [of ?c "map projectTuple (Projects s)"] by blast
qed

lemma json_ProjectStatus_Status:
  "json_ProjectStatus u = u \<Longrightarrow> json_ProjectStatus (u\<lparr>Status := st\<rparr>) = u\<lparr>Status := st\<rparr>"
  by (cases u) (simp add: json_ProjectStatus_def)

lemma updateExisting_decoded:
  "map json_ProjectStatus ps = ps \<Longrightarrow>
   map json_ProjectStatus (fst (updateExisting ps r)) = fst (updateExisting ps r)"
  by (induction ps) (auto simp: json_ProjectStatus_Status split: prod.splits)

lemma mergeResults_decoded:
  "map json_ProjectStatus ps = ps \<Longrightarrow>
   \<forall>r \<in> set rs. json_ProjectStatus (projectResultToProject r) = projectResultToProject r \<Longrightarrow>
   map json_ProjectStatus (mergeResults ps rs) = mergeResults ps rs"
proof (induction rs arbitrary: ps)
  case Nil
  then show ?case by simp
next
  case (Cons r rs)
  obtain ps' u where e: "updateExisting ps r = (ps', u)"
    by fastforce
  have d: "map json_ProjectStatus ps' = ps'"
    using updateExisting_decoded [OF Cons.prems(1), of r] e by simp
  have v: "json_ProjectStatus (projectResultToProject r) = projectResultToProject r"
    and vs: "\<forall>r \<in> set rs. json_ProjectStatus (projectResultToProject r) = projectResultToProject r"
    using Cons.prems(2) by simp_all
  show ?case
  proof (cases u)
    case True
    then show ?thesis
      using Cons.IH [OF d vs] e by simp
  next
    case False
    have "map json_ProjectStatus (ps' @ [projectResultToProject r]) = ps' @ [projectResultToProject r]"
      using d v by simp
    then show ?thesis
      using Cons.IH [OF _ vs, of "ps' @ [projectResultToProject r]"] e False by simp
  qed
qed

text \<open>
  C3, as the file has it, for a pull request whose key and whose new status BoltDB
  takes. The status returned is the one built in memory; the status written is its
  JSON text, \<open>json_PullStatus\<close> of it.

  \<^item> On the replace path the projects of the status returned are the conversions of
    the results, one for one: they are distinct exactly when the results are. The
    status written is distinct only if the results are, and is distinct when they are
    and their strings are valid UTF-8.
  \<^item> On the merge path a result either updates the entry with its identity or is
    appended when there is none, so with a stored status of distinct projects the
    status returned has distinct projects, also when the results repeat a project. The
    status written is the status returned, and so distinct, when the stored status is
    in decoded form and the strings of the results are valid UTF-8.
\<close>

theorem UpdatePullWithResults_distinct_projects:
  "pullKey pull = Inr key \<Longrightarrow>
   length key \<le> MaxKeySize \<Longrightarrow>
   ((bucket_Get (pulls b) key = None \<or>
     (bucket_Get (pulls b) key = Some (JSON old) \<and>
      HeadCommit (PullStatus.Pull old) \<noteq> HeadCommit pull)) \<and>
    statusLen env \<lparr>Projects = map projectResultToProject newResults, PullStatus.Pull = pull\<rparr>
      \<le> MaxValueSize \<longrightarrow>
    (\<exists>returned.
       snd (UpdatePullWithResults env b pull newResults) = Inr returned \<and>
       bucket_Get (pulls (fst (UpdatePullWithResults env b pull newResults))) key =
         Some (JSON (json_PullStatus returned)) \<and>
       (distinct (map projectTuple (Projects returned)) \<longleftrightarrow>
        distinct (map resultTuple newResults)) \<and>
       (distinct (map projectTuple (Projects (json_PullStatus returned))) \<longrightarrow>
        distinct (map resultTuple newResults)) \<and>
       ((\<forall>r \<in> set newResults.
           json_ProjectStatus (projectResultToProject r) = projectResultToProject r) \<and>
        distinct (map resultTuple newResults) \<longrightarrow>
        distinct (map projectTuple (Projects (json_PullStatus returned)))))) \<and>
   (bucket_Get (pulls b) key = Some (JSON old) \<and>
    HeadCommit (PullStatus.Pull old) = HeadCommit pull \<and>
    distinct (map projectTuple (Projects old)) \<and>
    statusLen env (old\<lparr>Projects := mergeResults (Projects old) newResults\<rparr>) \<le> MaxValueSize \<longrightarrow>
    (\<exists>returned.
       snd (UpdatePullWithResults env b pull newResults) = Inr returned \<and>
       bucket_Get (pulls (fst (UpdatePullWithResults env b pull newResults))) key =
         Some (JSON (json_PullStatus returned)) \<and>
       distinct (map projectTuple (Projects returned)) \<and>
       (json_PullStatus old = old \<and>
        (\<forall>r \<in> set newResults.
           json_ProjectStatus (projectResultToProject r) = projectResultToProject r) \<longrightarrow>
        json_PullStatus returned = returned \<and>
        distinct (map projectTuple (Projects (json_PullStatus returned))))))"
proof (intro conjI impI)
  assume k: "pullKey pull = Inr key" and len: "length key \<le> MaxKeySize"
    and r: "(bucket_Get (pulls b) key = None \<or>
             (bucket_Get (pulls b) key = Some (JSON old) \<and>
              HeadCommit (PullStatus.Pull old) \<noteq> HeadCommit pull)) \<and>
            statusLen env \<lparr>Projects = map projectResultToProject newResults, PullStatus.Pull = pull\<rparr>
              \<le> MaxValueSize"
  let ?new = "\<lparr>Projects = map projectResultToProject newResults, PullStatus.Pull = pull\<rparr>"
  have c: "projectTuple \<circ> projectResultToProject = resultTuple"
    by (simp add: fun_eq_iff)
  have 1: "distinct (map projectTuple (Projects ?new)) \<longleftrightarrow> distinct (map resultTuple newResults)"
    by (simp add: c)
  have 2: "distinct (map projectTuple (Projects (json_PullStatus ?new))) \<longrightarrow>
           distinct (map resultTuple newResults)"
    using written_distinct_imp_distinct [of ?new] 1 by blast
  have 3: "distinct (map projectTuple (Projects (json_PullStatus ?new)))"
    if "\<forall>r \<in> set newResults.
          json_ProjectStatus (projectResultToProject r) = projectResultToProject r"
      "distinct (map resultTuple newResults)"
  proof -
    have "map (json_ProjectStatus \<circ> projectResultToProject) newResults =
            map projectResultToProject newResults"
      using that(1) by simp
    then have h: "Projects (json_PullStatus ?new) = Projects ?new"
      by (simp add: json_PullStatus_def)
    show ?thesis
      unfolding h using 1 that(2) by blast
  qed
  have u: "UpdatePullWithResults env b pull newResults =
             (b\<lparr>pulls := bucket_insert (pulls b) key (JSON (json_PullStatus ?new)),
                txCount := txCount b + 1\<rparr>, Inr ?new)"
    using UpdatePullWithResults_fresh [OF k len conjunct2 [OF r] conjunct1 [OF r]] .
  show "\<exists>returned.
       snd (UpdatePullWithResults env b pull newResults) = Inr returned \<and>
       bucket_Get (pulls (fst (UpdatePullWithResults env b pull newResults))) key =
         Some (JSON (json_PullStatus returned)) \<and>
       (distinct (map projectTuple (Projects returned)) \<longleftrightarrow>
        distinct (map resultTuple newResults)) \<and>
       (distinct (map projectTuple (Projects (json_PullStatus returned))) \<longrightarrow>
        distinct (map resultTuple newResults)) \<and>
       ((\<forall>r \<in> set newResults.
           json_ProjectStatus (projectResultToProject r) = projectResultToProject r) \<and>
        distinct (map resultTuple newResults) \<longrightarrow>
        distinct (map projectTuple (Projects (json_PullStatus returned))))"
  proof (intro exI [of _ ?new] conjI)
    show "snd (UpdatePullWithResults env b pull newResults) = Inr ?new"
      by (simp add: u)
    show "bucket_Get (pulls (fst (UpdatePullWithResults env b pull newResults))) key =
            Some (JSON (json_PullStatus ?new))"
      by (simp add: u bucket_Get_insert)
    show "distinct (map projectTuple (Projects ?new)) \<longleftrightarrow> distinct (map resultTuple newResults)"
      by (rule 1)
    show "distinct (map projectTuple (Projects (json_PullStatus ?new))) \<longrightarrow>
          distinct (map resultTuple newResults)"
      by (rule 2)
    show "(\<forall>r \<in> set newResults.
             json_ProjectStatus (projectResultToProject r) = projectResultToProject r) \<and>
          distinct (map resultTuple newResults) \<longrightarrow>
          distinct (map projectTuple (Projects (json_PullStatus ?new)))"
      using 3 by blast
  qed
next
  assume k: "pullKey pull = Inr key" and len: "length key \<le> MaxKeySize"
    and m: "bucket_Get (pulls b) key = Some (JSON old) \<and>
            HeadCommit (PullStatus.Pull old) = HeadCommit pull \<and>
            distinct (map projectTuple (Projects old)) \<and>
            statusLen env (old\<lparr>Projects := mergeResults (Projects old) newResults\<rparr>) \<le> MaxValueSize"
  let ?new = "old\<lparr>Projects := mergeResults (Projects old) newResults\<rparr>"
  have stored: "bucket_Get (pulls b) key = Some (JSON old)"
    and same: "HeadCommit (PullStatus.Pull old) = HeadCommit pull"
    and od: "distinct (map projectTuple (Projects old))"
    and fits: "statusLen env ?new \<le> MaxValueSize"
    using m by simp_all
  have u: "UpdatePullWithResults env b pull newResults =
             (b\<lparr>pulls := bucket_insert (pulls b) key (JSON (json_PullStatus ?new)),
                txCount := txCount b + 1\<rparr>, Inr ?new)"
    using UpdatePullWithResults_merged [OF k len fits stored same] .
  have 1: "distinct (map projectTuple (Projects ?new))"
    using mergeResults_distinct [OF od] by simp
  have 2: "json_PullStatus ?new = ?new"
    if "json_PullStatus old = old"
      "\<forall>r \<in> set newResults.
          json_ProjectStatus (projectResultToProject r) = projectResultToProject r"
  proof -
    have p: "map json_ProjectStatus (Projects old) = Projects old"
      and q: "json_PullRequest (PullStatus.Pull old) = PullStatus.Pull old"
      using that(1) by (cases old, simp add: json_PullStatus_def)+
    show ?thesis
      using mergeResults_decoded [OF p that(2)] q by (simp add: json_PullStatus_def)
  qed
  show "\<exists>returned.
       snd (UpdatePullWithResults env b pull newResults) = Inr returned \<and>
       bucket_Get (pulls (fst (UpdatePullWithResults env b pull newResults))) key =
         Some (JSON (json_PullStatus returned)) \<and>
       distinct (map projectTuple (Projects returned)) \<and>
       (json_PullStatus old = old \<and>
        (\<forall>r \<in> set newResults.
           json_ProjectStatus (projectResultToProject r) = projectResultToProject r) \<longrightarrow>
        json_PullStatus returned = returned \<and>
        distinct (map projectTuple (Projects (json_PullStatus returned))))"
  proof (intro exI [of _ ?new] conjI impI)
    show "snd (UpdatePullWithResults env b pull newResults) = Inr ?new"
      by (simp add: u)
    show "bucket_Get (pulls (fst (UpdatePullWithResults env b pull newResults))) key =
            Some (JSON (json_PullStatus ?new))"
      by (simp add: u bucket_Get_insert)
    show "distinct (map projectTuple (Projects ?new))"
      by (rule 1)
  next
    assume a: "json_PullStatus old = old \<and>
               (\<forall>r \<in> set newResults.
                  json_ProjectStatus (projectResultToProject r) = projectResultToProject r)"
    then show "json_PullStatus ?new = ?new"
      using 2 by blast
    then show "distinct (map projectTuple (Projects (json_PullStatus ?new)))"
      using 1 by simp
  qed
qed


theorem UpdatePullWithResults_distinct_projects_witness:
  "pullKey (pullNo ''org/repo'' 42 ''c0ffee'' ''bob'') = Inr ''github.com::org/repo::42'' \<and>
   length ''github.com::org/repo::42'' \<le> MaxKeySize \<and>
   bucket_Get (pulls emptyDB) ''github.com::org/repo::42'' = None \<and>
   distinct (map resultTuple [resultOf ''a'' ''x'' ''p'' 2, resultOf ''b'' ''y'' ''q'' 3]) \<and>
   (\<exists>returned.
      snd (UpdatePullWithResults machineUTC emptyDB (pullNo ''org/repo'' 42 ''c0ffee'' ''bob'')
             [resultOf ''a'' ''x'' ''p'' 2, resultOf ''b'' ''y'' ''q'' 3]) = Inr returned \<and>
      bucket_Get
        (pulls (fst (UpdatePullWithResults machineUTC emptyDB
                       (pullNo ''org/repo'' 42 ''c0ffee'' ''bob'')
                       [resultOf ''a'' ''x'' ''p'' 2, resultOf ''b'' ''y'' ''q'' 3])))
        ''github.com::org/repo::42'' = Some (JSON (json_PullStatus returned)) \<and>
      distinct (map projectTuple (Projects returned)) \<and>
      distinct (map projectTuple (Projects (json_PullStatus returned)))) \<and>
   bucket_Get
     (pulls (storedDB ''github.com::org/repo::42''
        \<lparr>Projects = [statusOf ''a'' ''x'' ''p'' 1],
         PullStatus.Pull = pullNo ''org/repo'' 42 ''c0ffee'' ''alice''\<rparr>))
     ''github.com::org/repo::42'' =
     Some (JSON \<lparr>Projects = [statusOf ''a'' ''x'' ''p'' 1],
                 PullStatus.Pull = pullNo ''org/repo'' 42 ''c0ffee'' ''alice''\<rparr>) \<and>
   \<not> distinct (map resultTuple [resultOf ''b'' ''y'' ''q'' 3, resultOf ''b'' ''y'' ''q'' 4]) \<and>
   (\<exists>returned.
      snd (UpdatePullWithResults machineUTC
             (storedDB ''github.com::org/repo::42''
                \<lparr>Projects = [statusOf ''a'' ''x'' ''p'' 1],
                 PullStatus.Pull = pullNo ''org/repo'' 42 ''c0ffee'' ''alice''\<rparr>)
             (pullNo ''org/repo'' 42 ''c0ffee'' ''bob'')
             [resultOf ''b'' ''y'' ''q'' 3, resultOf ''b'' ''y'' ''q'' 4]) = Inr returned \<and>
      distinct (map projectTuple (Projects returned)) \<and>
      json_PullStatus returned = returned)"
proof -
  let ?old = "\<lparr>Projects = [statusOf ''a'' ''x'' ''p'' 1],
               PullStatus.Pull = pullNo ''org/repo'' 42 ''c0ffee'' ''alice''\<rparr>"
  let ?bob = "pullNo ''org/repo'' 42 ''c0ffee'' ''bob''"
  let ?two = "[resultOf ''a'' ''x'' ''p'' 2, resultOf ''b'' ''y'' ''q'' 3]"
  let ?twice = "[resultOf ''b'' ''y'' ''q'' 3, resultOf ''b'' ''y'' ''q'' 4]"
  have k: "pullKey ?bob = Inr ''github.com::org/repo::42''"
    by simp
  have absent: "bucket_Get (pulls emptyDB) ''github.com::org/repo::42'' = None"
    by (simp add: emptyDB_def bucket_Get_def)
  have present: "bucket_Get (pulls (storedDB ''github.com::org/repo::42'' ?old))
                   ''github.com::org/repo::42'' = Some (JSON ?old)"
    by (simp add: storedDB_def bucket_Get_def)
  have d: "distinct (map resultTuple ?two)"
    and nd: "\<not> distinct (map resultTuple ?twice)"
    by simp_all
  have v2: "\<forall>r \<in> set ?two. json_ProjectStatus (projectResultToProject r) = projectResultToProject r"
    and v3: "\<forall>r \<in> set ?twice. json_ProjectStatus (projectResultToProject r) = projectResultToProject r"
    by (simp_all add: json_ProjectStatus_statusOf)
  have same: "HeadCommit (PullStatus.Pull ?old) = HeadCommit ?bob"
    and od: "distinct (map projectTuple (Projects ?old))"
    and dec: "json_PullStatus ?old = ?old"
    by (simp_all add: pullNo_def json_PullStatus_def json_ProjectStatus_statusOf
          json_PullRequest_def json_Repo_def)
  have fits2: "statusLen machineUTC \<lparr>Projects = map projectResultToProject ?two,
                                       PullStatus.Pull = ?bob\<rparr> \<le> MaxValueSize"
    by (simp add: machineUTC_takes_small_status)
  have "length (mergeResults (Projects ?old) ?twice) \<le> 1000"
    by simp
  then have fits3: "statusLen machineUTC (?old\<lparr>Projects := mergeResults (Projects ?old) ?twice\<rparr>)
                      \<le> MaxValueSize"
    by (simp add: machineUTC_takes_small_status del: mergeResults.simps)
  have 1: "\<exists>returned.
      snd (UpdatePullWithResults machineUTC emptyDB ?bob ?two) = Inr returned \<and>
      bucket_Get (pulls (fst (UpdatePullWithResults machineUTC emptyDB ?bob ?two)))
        ''github.com::org/repo::42'' = Some (JSON (json_PullStatus returned)) \<and>
      distinct (map projectTuple (Projects returned)) \<and>
      distinct (map projectTuple (Projects (json_PullStatus returned)))"
    using absent d v2 fits2
      UpdatePullWithResults_distinct_projects [OF k example_key_length, where b = emptyDB
        and env = machineUTC and newResults = ?two]
    by blast
  have 2: "\<exists>returned.
      snd (UpdatePullWithResults machineUTC (storedDB ''github.com::org/repo::42'' ?old)
             ?bob ?twice) = Inr returned \<and>
      distinct (map projectTuple (Projects returned)) \<and>
      json_PullStatus returned = returned"
    using present same od dec v3 fits3
      UpdatePullWithResults_distinct_projects [OF k example_key_length, where
        b = "storedDB ''github.com::org/repo::42'' ?old" and env = machineUTC
        and old = ?old and newResults = ?twice]
    by blast
  show ?thesis
    using k example_key_length absent present d nd 1 2 by blast
qed

text \<open>
  C3 as stated fails on the replace path: with nothing stored, two results for the same
  workspace, directory and project name give a status, returned and written, with two
  entries for it.
\<close>

theorem UpdatePullWithResults_duplicates_counterexample:
  "snd (UpdatePullWithResults machineUTC emptyDB (pullNo ''org/repo'' 42 ''c0ffee'' ''alice'')
          [resultOf ''default'' ''dir1'' ''p'' 1, resultOf ''default'' ''dir1'' ''p'' 2]) =
     Inr \<lparr>Projects = [statusOf ''default'' ''dir1'' ''p'' 1, statusOf ''default'' ''dir1'' ''p'' 2],
          PullStatus.Pull = pullNo ''org/repo'' 42 ''c0ffee'' ''alice''\<rparr> \<and>
   bucket_Get
     (pulls (fst (UpdatePullWithResults machineUTC emptyDB
                    (pullNo ''org/repo'' 42 ''c0ffee'' ''alice'')
                    [resultOf ''default'' ''dir1'' ''p'' 1, resultOf ''default'' ''dir1'' ''p'' 2])))
     ''github.com::org/repo::42'' =
     Some (JSON \<lparr>Projects = [statusOf ''default'' ''dir1'' ''p'' 1,
                              statusOf ''default'' ''dir1'' ''p'' 2],
                 PullStatus.Pull = pullNo ''org/repo'' 42 ''c0ffee'' ''alice''\<rparr>) \<and>
   \<not> distinct (map projectTuple
                  [statusOf ''default'' ''dir1'' ''p'' 1, statusOf ''default'' ''dir1'' ''p'' 2])"
proof -
  have absent: "bucket_Get (pulls emptyDB) ''github.com::org/repo::42'' = None"
    by (simp add: emptyDB_def bucket_Get_def)
  have k: "pullKey (pullNo ''org/repo'' 42 ''c0ffee'' ''alice'') = Inr ''github.com::org/repo::42''"
    by simp
  have fits: "statusLen machineUTC
                \<lparr>Projects = map projectResultToProject
                   [resultOf ''default'' ''dir1'' ''p'' 1, resultOf ''default'' ''dir1'' ''p'' 2],
                 PullStatus.Pull = pullNo ''org/repo'' 42 ''c0ffee'' ''alice''\<rparr> \<le> MaxValueSize"
    by (simp add: machineUTC_takes_small_status)
  have "\<not> distinct (map projectTuple
                  [statusOf ''default'' ''dir1'' ''p'' 1, statusOf ''default'' ''dir1'' ''p'' 2])"
    by simp
  then show ?thesis
    using UpdatePullWithResults_fresh [OF k example_key_length fits disjI1 [OF absent]]
    by (simp add: bucket_Get_insert json_PullStatus_def json_ProjectStatus_statusOf
          json_PullRequest_pullNo)
qed

text \<open>
  On the merge path the status written can have two entries for one project although
  the status returned has none: two results whose workspaces are the different invalid
  bytes \<open>0xFF\<close> and \<open>0xFE\<close> are both appended, and both are written with the
  workspace U+FFFD. This is why the status written is distinct only for results in
  valid UTF-8.
\<close>

lemma json_string_FE: "json_string [CHR 0xFE] = RuneError"
  by (simp add: json_string.simps(2))

lemma UpdatePullWithResults_merge_writes_duplicates:
  "snd (UpdatePullWithResults machineUTC
          (storedDB ''github.com::org/repo::42''
             \<lparr>Projects = [statusOf ''a'' ''x'' ''p'' 1],
              PullStatus.Pull = pullNo ''org/repo'' 42 ''c0ffee'' ''alice''\<rparr>)
          (pullNo ''org/repo'' 42 ''c0ffee'' ''alice'')
          [resultOf [CHR 0xFF] ''dir1'' ''p'' 1, resultOf [CHR 0xFE] ''dir1'' ''p'' 2]) =
     Inr \<lparr>Projects = [statusOf ''a'' ''x'' ''p'' 1, statusOf [CHR 0xFF] ''dir1'' ''p'' 1,
                      statusOf [CHR 0xFE] ''dir1'' ''p'' 2],
          PullStatus.Pull = pullNo ''org/repo'' 42 ''c0ffee'' ''alice''\<rparr> \<and>
   bucket_Get
     (pulls (fst (UpdatePullWithResults machineUTC
          (storedDB ''github.com::org/repo::42''
             \<lparr>Projects = [statusOf ''a'' ''x'' ''p'' 1],
              PullStatus.Pull = pullNo ''org/repo'' 42 ''c0ffee'' ''alice''\<rparr>)
          (pullNo ''org/repo'' 42 ''c0ffee'' ''alice'')
          [resultOf [CHR 0xFF] ''dir1'' ''p'' 1, resultOf [CHR 0xFE] ''dir1'' ''p'' 2])))
     ''github.com::org/repo::42'' =
     Some (JSON \<lparr>Projects = [statusOf ''a'' ''x'' ''p'' 1,
                              statusOf [CHR 0xEF, CHR 0xBF, CHR 0xBD] ''dir1'' ''p'' 1,
                              statusOf [CHR 0xEF, CHR 0xBF, CHR 0xBD] ''dir1'' ''p'' 2],
                 PullStatus.Pull = pullNo ''org/repo'' 42 ''c0ffee'' ''alice''\<rparr>)"
proof -
  let ?old = "\<lparr>Projects = [statusOf ''a'' ''x'' ''p'' 1],
               PullStatus.Pull = pullNo ''org/repo'' 42 ''c0ffee'' ''alice''\<rparr>"
  let ?rs = "[resultOf [CHR 0xFF] ''dir1'' ''p'' 1, resultOf [CHR 0xFE] ''dir1'' ''p'' 2]"
  have k: "pullKey (pullNo ''org/repo'' 42 ''c0ffee'' ''alice'') = Inr ''github.com::org/repo::42''"
    by simp
  have present: "bucket_Get (pulls (storedDB ''github.com::org/repo::42'' ?old))
                   ''github.com::org/repo::42'' = Some (JSON ?old)"
    by (simp add: storedDB_def bucket_Get_def)
  have m: "mergeResults (Projects ?old) ?rs =
             [statusOf ''a'' ''x'' ''p'' 1, statusOf [CHR 0xFF] ''dir1'' ''p'' 1,
              statusOf [CHR 0xFE] ''dir1'' ''p'' 2]"
    by (simp add: statusOf_def resultOf_def projectResultToProject_def)
  have fits: "statusLen machineUTC (?old\<lparr>Projects := mergeResults (Projects ?old) ?rs\<rparr>)
                \<le> MaxValueSize"
    by (simp only: m) (simp add: machineUTC_takes_small_status)
  have same: "HeadCommit (PullStatus.Pull ?old) =
              HeadCommit (pullNo ''org/repo'' 42 ''c0ffee'' ''alice'')"
    by simp
  show ?thesis
    using UpdatePullWithResults_merged [OF k example_key_length fits present same]
    by (simp only: m)
       (simp add: bucket_Get_insert json_PullStatus_def json_ProjectStatus_statusOf
          json_PullRequest_pullNo json_string_FF json_string_FE RuneError_def)
qed


subsection \<open>Releasing the locks of a pull request\<close>

text \<open>
  In byte order the keys with a given prefix lie together, and none lies before the
  prefix itself: the scan, which starts at the prefix and stops at the first key
  without it, meets every key that has it.
\<close>

lemma le_append: "pre \<le> pre @ (zs::string)"
  by (induction pre) simp_all

lemma prefix_le: "prefix pre (k::string) \<Longrightarrow> pre \<le> k"
  by (auto simp: prefix_def le_append)

lemma past_prefix:
  "\<not> prefix pre (k::string) \<Longrightarrow> pre < k \<Longrightarrow> k < k' \<Longrightarrow> \<not> prefix pre k'"
proof (induction pre arbitrary: k k')
  case Nil
  then show ?case by simp
next
  case (Cons a pre)
  then show ?case
    by (cases k; cases k') (auto simp: prefix_Cons)
qed

lemma scanLocks_from:
  "sorted_wrt (<) (map fst ys) \<Longrightarrow> \<forall>(k, v) \<in> set ys. pre \<le> k \<Longrightarrow>
   \<forall>(k, v) \<in> set ys. v \<noteq> Garbage \<Longrightarrow>
   scanLocks ys pre n acc = (acc @ matchingLocks ys pre n, None)"
proof (induction ys arbitrary: acc)
  case Nil
  then show ?case by simp
next
  case (Cons kv ys)
  obtain k v where kv: "kv = (k, v)" by (cases kv)
  obtain l where v: "v = JSON l" using Cons.prems(3) kv by (cases v) auto
  show ?case
  proof (cases "prefix pre k")
    case True
    then show ?thesis
      using Cons kv v by (simp add: bytes_HasPrefix_def json_Unmarshal_def)
  next
    case False
    have "pre < k" using Cons.prems(2) kv False by (auto simp: less_le)
    have none: "matchingLocks zs pre n = []" if "\<forall>(k', v') \<in> set zs. k < k'" for zs
      using that
    proof (induction zs)
      case Nil show ?case by simp
    next
      case (Cons z zs)
      obtain k' v' where z: "z = (k', v')" by (cases z)
      have "\<not> prefix pre k'" using past_prefix [OF False \<open>pre < k\<close>, of k'] Cons.prems z by auto
      then show ?case using Cons z by (simp split: serialized.splits)
    qed
    have "\<forall>(k', v') \<in> set ys. k < k'" using Cons.prems(1) kv by auto
    then show ?thesis
      using kv v False none [of ys] by (simp add: bytes_HasPrefix_def)
  qed
qed

lemma matchingLocks_append:
  "matchingLocks (xs @ ys) pre n = matchingLocks xs pre n @ matchingLocks ys pre n"
  by (induction xs) (auto split: serialized.splits)

lemma matchingLocks_below:
  "\<forall>(k, v) \<in> set xs. k < pre \<Longrightarrow> matchingLocks xs pre n = []"
proof (induction xs)
  case Nil
  show ?case by simp
next
  case (Cons x xs)
  obtain k v where x: "x = (k, v)" by (cases x)
  have "\<not> prefix pre k"
    using prefix_le [of pre k] Cons.prems x by auto
  then show ?case
    using Cons x by (simp split: serialized.splits)
qed

lemma cursor_Seek_at_or_after:
  "sorted_wrt (<) (map fst xs) \<Longrightarrow> \<forall>(k, v) \<in> set (cursor_Seek xs pre). pre \<le> k"
  by (induction xs) (auto simp: cursor_Seek_def)

lemma cursor_Seek_sorted:
  "sorted_wrt (<) (map fst xs) \<Longrightarrow> sorted_wrt (<) (map fst (cursor_Seek xs pre))"
  by (induction xs) (auto simp: cursor_Seek_def)

lemma matchingLocks_cursor_Seek:
  "matchingLocks (cursor_Seek xs pre) pre n = matchingLocks xs pre n"
proof -
  have "matchingLocks xs pre n =
          matchingLocks (takeWhile (\<lambda>(k, w). k < pre) xs @ cursor_Seek xs pre) pre n"
    by (simp add: cursor_Seek_def)
  also have "\<dots> = matchingLocks (cursor_Seek xs pre) pre n"
    using matchingLocks_below [of "takeWhile (\<lambda>(k, w). k < pre) xs" pre n]
    by (auto simp: matchingLocks_append dest: set_takeWhileD)
  finally show ?thesis by simp
qed

lemma scan_finds_matching:
  assumes "lockBucket_ok bucket"
  shows "scanLocks (cursor_Seek bucket pre) pre n [] = (matchingLocks bucket pre n, None)"
proof -
  have s: "sorted_wrt (<) (map fst bucket)"
    and j: "\<forall>(k, v) \<in> set bucket. v \<noteq> Garbage"
    using assms by (auto simp: lockBucket_ok_def list_all_iff)
  have "\<forall>(k, v) \<in> set (cursor_Seek bucket pre). v \<noteq> Garbage"
    using j by (auto simp: cursor_Seek_def dest: set_dropWhileD)
  then show ?thesis
    using scanLocks_from [OF cursor_Seek_sorted [OF s] cursor_Seek_at_or_after [OF s], of pre n "[]"]
    by (simp add: matchingLocks_cursor_Seek)
qed

text \<open>
  On a bucket as \<open>TryLock\<close> and \<open>Unlock\<close> keep it, \<open>UnlockByPull\<close> returns the
  locks that the prefix and the pull number select, without error, and afterwards
  exactly their keys hold nothing.
\<close>

lemma Unlock_decodable:
  "\<forall>(k, v) \<in> set (runLocks b). v \<noteq> Garbage \<Longrightarrow>
   \<exists>r. Unlock b p workspace =
         (b\<lparr>runLocks := bucket_Delete (runLocks b) (lockKey p workspace),
            txCount := txCount b + 1\<rparr>, Inr r)"
proof (cases "bucket_Get (runLocks b) (lockKey p workspace)")
  case None
  then show ?thesis by (simp add: Unlock_absent bucket_Delete_absent)
next
  case (Some v)
  assume "\<forall>(k, v) \<in> set (runLocks b). v \<noteq> Garbage"
  then obtain l where "v = JSON l"
    using Some by (cases v) (auto simp: bucket_Get_def dest: map_of_SomeD)
  then show ?thesis using Some by (simp add: Unlock_present)
qed

lemma unlockAll_decodable:
  "\<forall>(k, v) \<in> set (runLocks b). v \<noteq> Garbage \<Longrightarrow>
   unlockAll b locks =
     (b\<lparr>runLocks := deleteKeys locks (runLocks b), txCount := txCount b + length locks\<rparr>, None)"
proof (induction locks arbitrary: b)
  case Nil
  then show ?case by (simp add: deleteKeys_def)
next
  case (Cons l locks)
  obtain r where u: "Unlock b (Project l) (ProjectLock.Workspace l) =
      (b\<lparr>runLocks := bucket_Delete (runLocks b) (lockKey (Project l) (ProjectLock.Workspace l)),
         txCount := txCount b + 1\<rparr>, Inr r)"
    using Unlock_decodable [OF Cons.prems] by blast
  have "\<forall>(k, v) \<in> set (runLocks (b\<lparr>runLocks := bucket_Delete (runLocks b) (lockKey (Project l) (ProjectLock.Workspace l)),
         txCount := txCount b + 1\<rparr>)). v \<noteq> Garbage"
    using Cons.prems by (auto simp: bucket_Delete_def)
  from Cons.IH [OF this] show ?case
    by (simp add: u deleteKeys_def)
qed

lemma bucket_Get_deleteKeys:
  "bucket_Get (deleteKeys locks bucket) k =
     (if k \<in> (\<lambda>l. lockKey (Project l) (ProjectLock.Workspace l)) ` set locks then None
      else bucket_Get bucket k)"
  by (induction locks arbitrary: bucket) (auto simp: deleteKeys_def bucket_Get_Delete)

lemma set_matchingLocks:
  "l \<in> set (matchingLocks bucket pre n) \<longleftrightarrow>
   (\<exists>k. (k, JSON l) \<in> set bucket \<and> prefix pre k \<and> Num (ProjectLock.Pull l) = n)"
  by (induction bucket) (auto split: serialized.splits if_splits)

lemma matchingLocks_keys:
  assumes ok: "lockBucket_ok bucket"
  shows "k \<in> (\<lambda>l. lockKey (Project l) (ProjectLock.Workspace l)) ` set (matchingLocks bucket pre n) \<longleftrightarrow>
   prefix pre k \<and> (\<exists>l. bucket_Get bucket k = Some (JSON l) \<and> Num (ProjectLock.Pull l) = n)"
proof -
  have d: "distinct (map fst bucket)"
    using ok by (simp add: lockBucket_ok_def strict_sorted_iff)
  have key: "k' = lockKey (Project l) (ProjectLock.Workspace l)" if "(k', JSON l) \<in> set bucket" for k' l
    using ok that by (auto simp: lockBucket_ok_def list_all_iff)
  have get: "bucket_Get bucket k' = Some v \<longleftrightarrow> (k', v) \<in> set bucket" for k' v
    using d by (simp add: bucket_Get_def)
  show ?thesis
  proof
    assume "k \<in> (\<lambda>l. lockKey (Project l) (ProjectLock.Workspace l)) ` set (matchingLocks bucket pre n)"
    then obtain l k' where l: "k = lockKey (Project l) (ProjectLock.Workspace l)"
      "(k', JSON l) \<in> set bucket" "prefix pre k'" "Num (ProjectLock.Pull l) = n"
      by (auto simp: set_matchingLocks)
    then have "k' = k" using key by simp
    then show "prefix pre k \<and> (\<exists>l. bucket_Get bucket k = Some (JSON l) \<and> Num (ProjectLock.Pull l) = n)"
      using l get by auto
  next
    assume "prefix pre k \<and> (\<exists>l. bucket_Get bucket k = Some (JSON l) \<and> Num (ProjectLock.Pull l) = n)"
    then obtain l where l: "prefix pre k" "(k, JSON l) \<in> set bucket" "Num (ProjectLock.Pull l) = n"
      using get by auto
    then have "l \<in> set (matchingLocks bucket pre n)"
      by (auto simp: set_matchingLocks)
    moreover have "k = lockKey (Project l) (ProjectLock.Workspace l)"
      using key l by simp
    ultimately show "k \<in> (\<lambda>l. lockKey (Project l) (ProjectLock.Workspace l)) ` set (matchingLocks bucket pre n)"
      by blast
  qed
qed

lemma UnlockByPull_prefix:
  assumes ok: "lockBucket_ok (runLocks b)"
  shows "UnlockByPull b repoFullName pullNum =
     (b\<lparr>runLocks := deleteKeys (matchingLocks (runLocks b) repoFullName pullNum) (runLocks b),
        txCount := txCount b + 1 + length (matchingLocks (runLocks b) repoFullName pullNum)\<rparr>,
      matchingLocks (runLocks b) repoFullName pullNum, None)"
    and "bucket_Get (runLocks (fst (UnlockByPull b repoFullName pullNum))) k =
     (if prefix repoFullName k \<and>
         (\<exists>l. bucket_Get (runLocks b) k = Some (JSON l) \<and> Num (ProjectLock.Pull l) = pullNum)
      then None else bucket_Get (runLocks b) k)"
proof -
  have j: "\<forall>(k, v) \<in> set (runLocks (b\<lparr>txCount := txCount b + 1\<rparr>)). v \<noteq> Garbage"
    using ok by (auto simp: lockBucket_ok_def list_all_iff)
  show 1: "UnlockByPull b repoFullName pullNum =
     (b\<lparr>runLocks := deleteKeys (matchingLocks (runLocks b) repoFullName pullNum) (runLocks b),
        txCount := txCount b + 1 + length (matchingLocks (runLocks b) repoFullName pullNum)\<rparr>,
      matchingLocks (runLocks b) repoFullName pullNum, None)"
    using unlockAll_decodable [OF j, of "matchingLocks (runLocks b) repoFullName pullNum"]
    by (simp add: UnlockByPull_def db_View_def scan_finds_matching [OF ok])
  show "bucket_Get (runLocks (fst (UnlockByPull b repoFullName pullNum))) k =
     (if prefix repoFullName k \<and>
         (\<exists>l. bucket_Get (runLocks b) k = Some (JSON l) \<and> Num (ProjectLock.Pull l) = pullNum)
      then None else bucket_Get (runLocks b) k)"
    using matchingLocks_keys [OF ok, of k repoFullName pullNum]
    by (simp add: 1 bucket_Get_deleteKeys)
qed

text \<open>The empty bucket is of that kind, and \<open>Unlock\<close> keeps it so.\<close>

lemma bucket_insert_set:
  "set (bucket_insert bucket key v) \<subseteq> insert (key, v) (set bucket)"
  by (induction bucket) (auto split: if_splits)

lemma bucket_insert_keys:
  "fst ` set (bucket_insert bucket key v) = insert key (fst ` set bucket)"
proof -
  have "map_of (bucket_insert bucket key v) = (map_of bucket)(key \<mapsto> v)"
    using bucket_Get_insert [of bucket key v] by (auto simp: bucket_Get_def fun_eq_iff)
  then have "dom (map_of (bucket_insert bucket key v)) = insert key (dom (map_of bucket))"
    by simp
  then show ?thesis
    by (simp add: dom_map_of_conv_image_fst)
qed

lemma bucket_insert_sorted:
  "sorted_wrt (<) (map fst bucket) \<Longrightarrow> sorted_wrt (<) (map fst (bucket_insert bucket key v))"
proof (induction bucket)
  case Nil
  show ?case by simp
next
  case (Cons x bucket)
  obtain k w where x: "x = (k, w)" by (cases x)
  show ?case
    using Cons x bucket_insert_keys [of bucket key v] by (auto simp: )
qed

text \<open>
  \<open>TryLock\<close> keeps it so for a lock whose timestamp JSON can write and whose
  repository name, path and workspace are valid UTF-8: the key is then the key of the
  lock that is stored.
\<close>

lemma TryLock_bucket:
  "\<not> timeMarshalFails env (Time newLock) \<Longrightarrow>
   runLocks (fst (TryLock env b newLock)) = runLocks b \<or>
   runLocks (fst (TryLock env b newLock)) =
     bucket_insert (runLocks b) (lockKey (Project newLock) (ProjectLock.Workspace newLock))
       (JSON (json_ProjectLock env newLock))"
  by (simp add: TryLock_def db_Update_def json_Marshal_ProjectLock_def Let_def bucket_Put_def
        json_Unmarshal_def split: option.splits serialized.splits)

lemma lockBucket_ok_TryLock:
  assumes ok: "lockBucket_ok (runLocks b)"
    and t: "\<not> timeMarshalFails env (Time newLock)"
    and p: "json_Project (Project newLock) = Project newLock"
    and w: "json_string (ProjectLock.Workspace newLock) = ProjectLock.Workspace newLock"
  shows "lockBucket_ok (runLocks (fst (TryLock env b newLock)))"
proof -
  let ?key = "lockKey (Project newLock) (ProjectLock.Workspace newLock)"
  have "lockBucket_ok (bucket_insert (runLocks b) ?key (JSON (json_ProjectLock env newLock)))"
    using ok bucket_insert_set [of "runLocks b" ?key "JSON (json_ProjectLock env newLock)"]
    by (auto simp: lockBucket_ok_def bucket_insert_sorted list_all_iff json_ProjectLock_def p w)
  then show ?thesis
    using TryLock_bucket [OF t, of b] ok by auto
qed

lemma lockBucket_ok_Unlock:
  "lockBucket_ok (runLocks b) \<Longrightarrow> lockBucket_ok (runLocks (fst (Unlock b p workspace)))"
proof -
  assume ok: "lockBucket_ok (runLocks b)"
  then have "\<forall>(k, v) \<in> set (runLocks b). v \<noteq> Garbage"
    by (auto simp: lockBucket_ok_def list_all_iff)
  from Unlock_decodable [OF this, of p workspace] obtain r where
    "Unlock b p workspace =
       (b\<lparr>runLocks := bucket_Delete (runLocks b) (lockKey p workspace),
          txCount := txCount b + 1\<rparr>, Inr r)" by blast
  then show ?thesis
    using ok by (auto simp: lockBucket_ok_def bucket_Delete_def list_all_iff sorted_wrt_map
        sorted_wrt_filter)
qed

lemma lockBucket_ok_emptyDB: "lockBucket_ok (runLocks emptyDB)"
  by (simp add: lockBucket_ok_def emptyDB_def)


lemma threeLocksDB_reached:
  "fst (TryLock machineUTC
         (fst (TryLock machineUTC
                (fst (TryLock machineUTC emptyDB (lockOf ''org/repo'' ''default'' 42)))
                (lockOf ''org/repo'' ''staging'' 43)))
         (lockOf ''org/repo-other'' ''default'' 42)) = threeLocksDB"
  by (simp add: TryLock_written emptyDB_def bucket_Get_def threeLocksDB_def written_def
        MaxKeySize_def machineUTC_writes_lockOf)

text \<open>The locks of the examples are written as they are.\<close>

lemma written_lockOf:
  "json_string repo = repo \<Longrightarrow> json_string w = w \<Longrightarrow>
   written (lockOf repo w n) = lockOf repo w n"
proof -
  assume v: "json_string repo = repo" "json_string w = w"
  have "json_Time machineUTC \<lparr>instant = 1500000000000000000, loc = FixedZone 3600\<rparr> =
          \<lparr>instant = 1500000000000000000, loc = FixedZone 3600\<rparr>"
    using machineUTC_writes_lockOf(3) [of repo w n] by (simp add: lockOf_def)
  then show ?thesis
    using v by (simp add: written_def json_ProjectLock_def lockOf_def json_Project_def
        json_PullRequest_def json_Repo_def pullNo_def)
qed

lemma written_examples:
  "written (lockOf ''org/repo'' ''default'' 42) = lockOf ''org/repo'' ''default'' 42"
  "written (lockOf ''org/repo'' ''staging'' 43) = lockOf ''org/repo'' ''staging'' 43"
  "written (lockOf ''org/repo-other'' ''default'' 42) = lockOf ''org/repo-other'' ''default'' 42"
  by (simp_all add: written_lockOf)

lemma scanLocks_threeLocksDB:
  "scanLocks (cursor_Seek (runLocks threeLocksDB) ''org/repo'') ''org/repo'' 42 [] =
     ([written (lockOf ''org/repo-other'' ''default'' 42),
       written (lockOf ''org/repo'' ''default'' 42)], None)"
  by (simp only: threeLocksDB_def written_examples)
     (simp add: cursor_Seek_def bytes_HasPrefix_def json_Unmarshal_def lockOf_def pullNo_def)

text \<open>
  C2 on a store that three calls of \<open>TryLock\<close> build: repository \<open>org/repo\<close> is
  locked by pull request 42 in workspace \<open>default\<close> and by pull request 43 in
  workspace \<open>staging\<close>, and repository \<open>org/repo-other\<close> is locked by its own pull
  request 42. \<open>UnlockByPull ''org/repo'' 42\<close> leaves the lock of pull request 43, and
  releases the lock of \<open>org/repo-other\<close> together with the one of \<open>org/repo\<close>: the
  key \<open>org/repo-other/./default\<close> begins with the bytes \<open>org/repo\<close>.
\<close>

theorem UnlockByPull_releases_other_repository:
  "fst (TryLock machineUTC
         (fst (TryLock machineUTC
                (fst (TryLock machineUTC emptyDB (lockOf ''org/repo'' ''default'' 42)))
                (lockOf ''org/repo'' ''staging'' 43)))
         (lockOf ''org/repo-other'' ''default'' 42)) = threeLocksDB \<and>
   bucket_Get (runLocks threeLocksDB) ''org/repo-other/./default'' =
     Some (JSON (written (lockOf ''org/repo-other'' ''default'' 42))) \<and>
   RepoFullName (Project (written (lockOf ''org/repo-other'' ''default'' 42))) = ''org/repo-other'' \<and>
   UnlockByPull threeLocksDB ''org/repo'' 42 =
     (\<lparr>runLocks = [(''org/repo/./staging'', JSON (written (lockOf ''org/repo'' ''staging'' 43)))],
       pulls = [], txCount = 6\<rparr>,
      [written (lockOf ''org/repo-other'' ''default'' 42),
       written (lockOf ''org/repo'' ''default'' 42)],
      None) \<and>
   bucket_Get (runLocks (fst (UnlockByPull threeLocksDB ''org/repo'' 42)))
     ''org/repo-other/./default'' = None"
proof -
  have before: "bucket_Get (runLocks threeLocksDB) ''org/repo-other/./default'' =
                  Some (JSON (written (lockOf ''org/repo-other'' ''default'' 42)))"
    by (simp add: threeLocksDB_def bucket_Get_def)
  have repo: "RepoFullName (Project (written (lockOf ''org/repo-other'' ''default'' 42))) =
                ''org/repo-other''"
    by (simp only: written_examples) (simp add: lockOf_def)
  have run: "UnlockByPull threeLocksDB ''org/repo'' 42 =
     (\<lparr>runLocks = [(''org/repo/./staging'', JSON (written (lockOf ''org/repo'' ''staging'' 43)))],
       pulls = [], txCount = 6\<rparr>,
      [written (lockOf ''org/repo-other'' ''default'' 42),
       written (lockOf ''org/repo'' ''default'' 42)],
      None)"
    apply (simp add: UnlockByPull_def db_View_def scanLocks_threeLocksDB)
    apply (simp only: threeLocksDB_def written_examples)
    apply (simp add: Unlock_def db_Update_def Let_def lockKey_def
             lockOf_def bucket_Get_def json_Unmarshal_def bucket_Delete_def)
    done
  have after: "bucket_Get (runLocks (fst (UnlockByPull threeLocksDB ''org/repo'' 42)))
                 ''org/repo-other/./default'' = None"
    by (simp add: run bucket_Get_def)
  show ?thesis
    using threeLocksDB_reached before repo run after by simp
qed

end
